theory Spec2Isabelle
  imports Complex_Main "HOL-Library.AList"
begin

section \<open>JavaScript values used by the credential system\<close>

text \<open>
  Strings are byte strings. Digests are JavaScript bigints produced by the Poseidon
  hash; they are non-negative, hence \<open>nat\<close>. A JavaScript \<open>Map\<close> is an association list
  in insertion order, and \<open>Map.set\<close> is \<open>AList.update\<close>, which keeps the position of a
  key that is already present. A plain object is the association list of its own
  properties in the order of their creation; \<open>objectOrder\<close> below gives the order in
  which they are enumerated.
\<close>

type_synonym bytes = "nat list"

type_synonym 'v jsmap = "(string \<times> 'v) list"

text \<open>Truthiness of a string: only the empty string is falsy.\<close>

definition truthy_str :: "string \<Rightarrow> bool" where
  "truthy_str s = (s \<noteq> [])"

text \<open>\<open>bigint.toString()\<close>: the decimal rendering of a non-negative bigint.\<close>

definition digit_char :: "nat \<Rightarrow> char" where
  "digit_char d = ''0123456789'' ! d"

function bigint_toString :: "nat \<Rightarrow> string" where
  "bigint_toString n =
     (if n < 10 then [digit_char n] else bigint_toString (n div 10) @ [digit_char (n mod 10)])"
  by pat_completeness auto
termination
  by (relation "measure (\<lambda>n. n)") auto

declare bigint_toString.simps [simp del]

text \<open>
  \<open>BigInt(s)\<close>, as \<open>StringToBigInt\<close> defines it. White space around the literal is
  dropped (the white-space characters among the 8-bit characters of the model). An empty
  literal is \<open>0n\<close>; the prefixes \<open>0x\<close>, \<open>0o\<close> and \<open>0b\<close> select the radix; a decimal
  literal may carry a sign. Anything else raises a SyntaxError (\<open>None\<close>). A string that
  denotes a negative bigint is outside the model, whose bigints are non-negative: it is
  answered with \<open>None\<close> as well.
\<close>

definition isStrWhiteSpace :: "char \<Rightarrow> bool" where
  "isStrWhiteSpace c = ((of_char c :: nat) \<in> {9, 10, 11, 12, 13, 32, 160})"

definition trim :: "string \<Rightarrow> string" where
  "trim s = rev (dropWhile isStrWhiteSpace (rev (dropWhile isStrWhiteSpace s)))"

text \<open>
  The value of a digit in a radix up to 36, and the value of a string of digits in a
  radix; a literal has at least one digit.
\<close>

definition digit_val :: "char \<Rightarrow> nat option" where
  "digit_val c =
     (let k = (of_char c :: nat) in
      if 48 \<le> k \<and> k \<le> 57 then Some (k - 48)
      else if 97 \<le> k \<and> k \<le> 122 then Some (k - 87)
      else if 65 \<le> k \<and> k \<le> 90 then Some (k - 55)
      else None)"

fun parse_digits :: "nat \<Rightarrow> nat \<Rightarrow> string \<Rightarrow> nat option" where
  "parse_digits radix acc [] = Some acc"
| "parse_digits radix acc (c # cs) =
     (case digit_val c of
        None \<Rightarrow> None
      | Some d \<Rightarrow> if d < radix then parse_digits radix (acc * radix + d) cs else None)"

definition parse_literal :: "nat \<Rightarrow> string \<Rightarrow> nat option" where
  "parse_literal radix ds = (if ds = [] then None else parse_digits radix 0 ds)"

definition BigInt :: "string \<Rightarrow> nat option" where
  "BigInt s =
     (case trim s of
        [] \<Rightarrow> Some 0
      | c # cs \<Rightarrow>
          if c = CHR ''0'' \<and> cs \<noteq> [] \<and> hd cs \<in> {CHR ''x'', CHR ''X''}
          then parse_literal 16 (tl cs)
          else if c = CHR ''0'' \<and> cs \<noteq> [] \<and> hd cs \<in> {CHR ''o'', CHR ''O''}
          then parse_literal 8 (tl cs)
          else if c = CHR ''0'' \<and> cs \<noteq> [] \<and> hd cs \<in> {CHR ''b'', CHR ''B''}
          then parse_literal 2 (tl cs)
          else if c = CHR ''+'' then parse_literal 10 cs
          else if c = CHR ''-'' then
            (case parse_literal 10 cs of Some 0 \<Rightarrow> Some 0 | _ \<Rightarrow> None)
          else parse_literal 10 (c # cs))"

text \<open>The string methods \<open>startsWith\<close>, \<open>includes\<close> (substring test) and \<open>split\<close> (for a one-character separator).\<close>

definition startsWith :: "string \<Rightarrow> string \<Rightarrow> bool" where
  "startsWith s pat = (take (length pat) s = pat)"

fun includes_str :: "string \<Rightarrow> string \<Rightarrow> bool" where
  "includes_str [] pat = (pat = [])"
| "includes_str (c # cs) pat = (startsWith (c # cs) pat \<or> includes_str cs pat)"

fun split_str :: "char \<Rightarrow> string \<Rightarrow> string list" where
  "split_str sep [] = [[]]"
| "split_str sep (c # cs) =
     (if c = sep then [] # split_str sep cs
      else (case split_str sep cs of [] \<Rightarrow> [[c]] | w # ws \<Rightarrow> (c # w) # ws))"

text \<open>
  The string method \<open>replace\<close> with a string pattern: the first occurrence of \<open>pat\<close> is
  replaced, and a string without \<open>pat\<close> is returned unchanged.
\<close>

fun replace_str :: "string \<Rightarrow> string \<Rightarrow> string \<Rightarrow> string" where
  "replace_str [] pat rep = (if pat = [] then rep else [])"
| "replace_str (c # cs) pat rep =
     (if startsWith (c # cs) pat then rep @ drop (length pat) (c # cs)
      else c # replace_str cs pat rep)"

text \<open>
  An array index is a property name that is the canonical decimal string of an integer
  below \<open>2^32 - 1\<close>. The own properties of an object are enumerated (\<open>Object.entries\<close>,
  \<open>JSON.stringify\<close>) with the array indices first, in ascending numeric order, and the
  other names after them in the order of their creation.
\<close>

definition arrayIndex :: "string \<Rightarrow> nat option" where
  "arrayIndex k =
     (case BigInt k of
        None \<Rightarrow> None
      | Some n \<Rightarrow> if bigint_toString n = k \<and> n < 4294967295 then Some n else None)"

definition indexOf :: "string \<times> 'v \<Rightarrow> nat" where
  "indexOf e = (case arrayIndex (fst e) of None \<Rightarrow> 0 | Some n \<Rightarrow> n)"

definition objectOrder :: "'v jsmap \<Rightarrow> 'v jsmap" where
  "objectOrder obj =
     sort_key indexOf (filter (\<lambda>e. arrayIndex (fst e) \<noteq> None) obj) @
     filter (\<lambda>e. arrayIndex (fst e) = None) obj"

text \<open>
  The names that an object inherits from \<open>Object.prototype\<close>. Each of them holds a
  function, except \<open>__proto__\<close>, an accessor that yields the prototype.
\<close>

definition objectPrototypeNames :: "string list" where
  "objectPrototypeNames =
     [''constructor'', ''__defineGetter__'', ''__defineSetter__'', ''hasOwnProperty'',
      ''__lookupGetter__'', ''__lookupSetter__'', ''isPrototypeOf'', ''propertyIsEnumerable'',
      ''toString'', ''valueOf'', ''__proto__'', ''toLocaleString'']"

text \<open>
  The assignment \<open>obj[k] = v\<close> to an object whose prototype is \<open>Object.prototype\<close>. Under
  the name \<open>__proto__\<close> it runs the setter the object inherits, which creates no own
  property (and leaves the prototype as it is when \<open>v\<close> is that prototype or no object).
\<close>

definition setProperty :: "string \<Rightarrow> 'v \<Rightarrow> 'v jsmap \<Rightarrow> 'v jsmap" where
  "setProperty k v obj = (if k = ''__proto__'' then obj else AList.update k v obj)"

text \<open>
  What a field of the TypeScript type \<open>number\<close> holds at run time: a finite number (a
  rational; rounding is not modelled), an infinity, NaN, or \<open>null\<close>, which
  \<open>JSON.parse\<close> puts where a number that is not finite was written.
\<close>

datatype number = Finite rat | Infinity | NegInfinity | NaN | Null

text \<open>\<open>ToNumber\<close> on such a value: \<open>null\<close> converts to 0.\<close>

fun toNumeric :: "number \<Rightarrow> number" where
  "toNumeric Null = Finite 0"
| "toNumeric n = n"

text \<open>
  The comparison \<open>x < y\<close> of two numbers (\<open>Number::lessThan\<close>): \<open>None\<close> is the
  result \<open>undefined\<close>, which a comparison with NaN gives. The operands have been
  converted by \<open>toNumeric\<close>; the two clauses for \<open>null\<close> only make the function total.
\<close>

fun lessThan :: "number \<Rightarrow> number \<Rightarrow> bool option" where
  "lessThan NaN y = None"
| "lessThan x NaN = None"
| "lessThan Null y = None"
| "lessThan x Null = None"
| "lessThan (Finite a) (Finite b) = Some (a < b)"
| "lessThan Infinity y = Some False"
| "lessThan NegInfinity y = Some (y \<noteq> NegInfinity)"
| "lessThan x Infinity = Some True"
| "lessThan x NegInfinity = Some False"

text \<open>
  The operators \<open>x < y\<close>, \<open>x > y\<close> and \<open>x >= y\<close> on numbers: \<open>undefined\<close> counts as
  false, and \<open>x >= y\<close> is the negation of a defined \<open>x < y\<close>.
\<close>

definition num_lt :: "number \<Rightarrow> number \<Rightarrow> bool" where
  "num_lt x y = (lessThan (toNumeric x) (toNumeric y) = Some True)"

definition num_gt :: "number \<Rightarrow> number \<Rightarrow> bool" where
  "num_gt x y = (lessThan (toNumeric y) (toNumeric x) = Some True)"


text \<open>
  \<open>JSON.stringify\<close> followed by \<open>JSON.parse\<close> on a number: a number that is not finite
  is written as \<open>null\<close>.
\<close>

definition jsonNumber :: "number \<Rightarrow> number" where
  "jsonNumber n = (case n of Finite r \<Rightarrow> Finite r | _ \<Rightarrow> Null)"

section \<open>Data model (types.ts)\<close>

record Scores =
  listening :: number
  reading :: number
  writing :: number
  speaking :: number
  overall :: number

record IELTSCredential =
  cred_id :: string
  cred_holder :: string
  cred_name :: string
  dateOfBirth :: string
  scores :: Scores
  certificationDate :: string
  expiryDate :: string
  testCenter :: string
  certificateNumber :: string

record BBSProof =
  bbs_type :: string
  bbs_created :: string
  bbs_proofPurpose :: string
  verificationMethod :: string
  signature :: bytes
  publicKey :: bytes

text \<open>
  The sub-objects \<open>credentialSubject\<close> and \<open>proof\<close> are options: \<open>storeCredential\<close> tests
  them for presence, so a credential that lacks one is an input of the program.
\<close>

record VerifiableCredential =
  vc_id :: string
  vc_type :: "string list"
  issuer :: string
  issuanceDate :: string
  credentialSubject :: "IELTSCredential option"
  vc_proof :: "BBSProof option"

record PresentationRequest =
  req_id :: string
  req_verifier :: string
  requiredFields :: "string list"
  minimumScores :: "number jsmap option"
  purpose :: string

record MembershipProof =
  leafIndex :: nat
  siblings :: "string list"
  directions :: "nat list"

record PreLeaf =
  pl_val :: string
  pl_nextVal :: string
  pl_nextIdx :: nat

record NonMembershipProof =
  query :: string
  preLeaf :: PreLeaf
  nm_path :: "string list"
  nm_directions :: "nat list"

record MerkleProof =
  leaf :: string
  path :: "string list"
  indices :: "nat list"
  root_mp :: string
  membershipProof :: "MembershipProof option"
  nonMembershipProof :: "NonMembershipProof option"

text \<open>
  A value of a revealed attribute: what reading a property of a credential can give.
  \<open>JObject\<close> is a function or an object that the credential inherits.
\<close>

datatype jsval = JUndefined | JNum number | JStr string | JScores Scores | JObject

record ZKProof =
  proofType :: string
  created :: string
  proofPurpose :: string
  merkleRoot :: string
  zkProof :: "MerkleProof option"
  revealedAttributes :: "jsval jsmap"

record VerifiablePresentation =
  vp_id :: string
  vp_type :: "string list"
  vp_holder :: string
  verifiableCredential :: "VerifiableCredential list"
  vp_proof :: "ZKProof option"

record RegistryEntry =
  credentialId :: string
  re_issuer :: string
  re_holder :: string
  re_issuanceDate :: string
  revoked :: bool
  merkleTreeIndex :: "nat option"

datatype error =
    CredentialNotFound
  | CredentialHashNotFound
  | CredentialIndexNotFound
  | TreeNotInitialized
  | MinimumScoreNotMet string
  | AlreadyRegistered string
  | HashAlreadyExists
  | LibraryError string
  | HashingNotInitialized
  | UntrustedIssuer
  | InvalidSignature
  | MissingRequiredFields
  | TypeError
  | SaveFailed error
  | LoadFailed error
  | FileSystemError

section \<open>Registry (registry.ts)\<close>

text \<open>
  The entries and the index table of the registry. Its ZK manager is written by
  \<open>registerCredential\<close> only and is left out: revocation and the status query neither
  read nor write it.
\<close>

record Registry =
  entries :: "RegistryEntry jsmap"
  merkleTreeIndices :: "nat jsmap"

definition revokeCredential :: "Registry \<Rightarrow> string \<Rightarrow> string \<Rightarrow> bool \<times> Registry" where
  "revokeCredential reg cid iss =
     (case map_of (entries reg) cid of
        None \<Rightarrow> (False, reg)
      | Some entry \<Rightarrow>
          if re_issuer entry \<noteq> iss then (False, reg)
          else (True, reg\<lparr>entries := AList.update cid (entry\<lparr>revoked := True\<rparr>) (entries reg)\<rparr>))"

definition isCredentialRevoked :: "Registry \<Rightarrow> string \<Rightarrow> bool" where
  "isCredentialRevoked reg cid =
     (case map_of (entries reg) cid of None \<Rightarrow> False | Some entry \<Rightarrow> revoked entry)"

section \<open>External collaborators\<close>

text \<open>
  The result of the Poseidon function of \<open>circomlibjs\<close>, as \<open>convertPoseidonToBigInt\<close>
  distinguishes it: a bigint, a byte array, or something else that is handed to \<open>BigInt\<close>.
\<close>

datatype hashout = HBigInt nat | HBytes "nat list" | HOther string

text \<open>A non-membership proof as the tree library exchanges it: bigints, and the root it is checked against.\<close>

record LibNonMembershipProof =
  lib_query :: nat
  lib_val :: nat
  lib_nextVal :: nat
  lib_nextIdx :: nat
  lib_path :: "nat list"
  lib_directions :: "nat list"
  lib_root :: "nat option"

text \<open>The side tables as \<open>saveTreeState\<close> writes them to the state file.\<close>

record AdditionalState =
  as_credentials :: "IELTSCredential jsmap"
  as_leafNodes :: "string jsmap"
  as_credentialIndices :: "nat jsmap"

text \<open>
  A file of the file system: the snapshot the tree library writes with \<open>saveToFile\<close>,
  or the JSON text of the side tables, held as the object that \<open>JSON.parse\<close> makes of
  it. The file system maps a path to its file, and says for every path whether a write
  to it succeeds (it fails, for instance, when the directory of the path is missing).
\<close>

datatype 't fsfile = TreeSnapshot 't | StateJson AdditionalState

record 't filesystem =
  fs_files :: "string \<Rightarrow> 't fsfile option"
  fs_writable :: "string \<Rightarrow> bool"

text \<open>
  What the program imports and does not define: the Poseidon hash, the indexed Merkle
  tree library (its tree state is the type \<open>'t\<close>), the BBS+ verification primitive and
  two conversions of the JavaScript number type (\<open>toNumber\<close> of a string, NaN when it
  is no number, and \<open>toString\<close> of a number). A library call that throws returns
  \<open>Inl\<close> (with the message) or \<open>None\<close>.
\<close>

datatype message = MStr string | MNum number

record 't Env =
  buildPoseidon :: "nat list \<Rightarrow> hashout"
  newTree :: 't
  treeSize :: "'t \<Rightarrow> nat"
  treeRoot :: "'t \<Rightarrow> nat"
  treeInsert :: "'t \<Rightarrow> nat \<Rightarrow> string + 't"
  createNonMembershipProof :: "'t \<Rightarrow> nat \<Rightarrow> LibNonMembershipProof option"
  treeVerifyNonMembershipProof :: "'t \<Rightarrow> LibNonMembershipProof \<Rightarrow> bool option"
  loadFromFile :: "'t fsfile \<Rightarrow> 't option"
  blsVerify :: "bytes \<Rightarrow> message list \<Rightarrow> bytes \<Rightarrow> bool"
  toNumber :: "string \<Rightarrow> number"
  numberToString :: "number \<Rightarrow> string"

section \<open>HashingUtils (hashing-utils.ts)\<close>

text \<open>\<open>(result << 8n) | BigInt(hash[i])\<close> over the bytes of a hash result.\<close>

definition bytesToBigInt :: "nat list \<Rightarrow> nat" where
  "bytesToBigInt bs = foldl (\<lambda>result b. or (push_bit 8 result) b) 0 bs"

definition convertPoseidonToBigInt :: "hashout \<Rightarrow> nat option" where
  "convertPoseidonToBigInt h =
     (case h of HBigInt n \<Rightarrow> Some n | HBytes bs \<Rightarrow> Some (bytesToBigInt bs) | HOther s \<Rightarrow> BigInt s)"

fun join :: "string \<Rightarrow> string list \<Rightarrow> string" where
  "join sep [] = []"
| "join sep [x] = x"
| "join sep (x # y # ys) = x @ sep @ join sep (y # ys)"

function chunks31 :: "nat list \<Rightarrow> nat list" where
  "chunks31 bs = (if bs = [] then [] else bytesToBigInt (take 31 bs) # chunks31 (drop 31 bs))"
  by pat_completeness auto
termination
  by (relation "measure length") auto

declare chunks31.simps [simp del]

text \<open>
  The five scores of a credential in the order in which \<open>hashCredential\<close> and
  \<open>credentialToMessages\<close> call \<open>toString()\<close> on them. The call throws a TypeError on
  \<open>null\<close>.
\<close>

definition scoreList :: "Scores \<Rightarrow> number list" where
  "scoreList s = [listening s, reading s, writing s, speaking s, overall s]"

definition hashCredential ::
  "'t Env \<Rightarrow> (nat list \<Rightarrow> hashout) option \<Rightarrow> IELTSCredential \<Rightarrow> error + nat" where
  "hashCredential env poseidonHash credential =
     (case poseidonHash of
        None \<Rightarrow> Inl HashingNotInitialized
      | Some poseidon \<Rightarrow>
          if Null \<in> set (scoreList (scores credential)) then Inl TypeError
          else
          (let data = join ''|''
                 ([cred_id credential, cred_holder credential, cred_name credential,
                   dateOfBirth credential] @
                  map (numberToString env) (scoreList (scores credential)) @
                  [certificationDate credential, expiryDate credential,
                   testCenter credential, certificateNumber credential]);
               dataBytes = map (\<lambda>c. (of_char c :: nat)) data;
               chunks = chunks31 dataBytes
           in case convertPoseidonToBigInt (poseidon chunks) of
                None \<Rightarrow> Inl TypeError
              | Some h \<Rightarrow> Inr h))"

section \<open>MerkleTreeManager (merkle-tree-manager.ts)\<close>

record 't MerkleTreeManager =
  merkleTree :: "'t option"
  credentials :: "IELTSCredential jsmap"
  leafNodes :: "nat jsmap"
  credentialIndices :: "nat jsmap"

text \<open>The manager together with the state of its \<open>HashingUtils\<close>: the Poseidon function once built.\<close>

record 't ZKManager =
  poseidonHash :: "(nat list \<Rightarrow> hashout) option"
  merkleTreeManager :: "'t MerkleTreeManager"

text \<open>The keys of a \<open>Map\<close> are distinct; the manager keeps this for its three side tables.\<close>

definition tables_distinct :: "'t MerkleTreeManager \<Rightarrow> bool" where
  "tables_distinct m \<longleftrightarrow>
     distinct (map fst (credentials m)) \<and> distinct (map fst (leafNodes m)) \<and>
     distinct (map fst (credentialIndices m))"

definition newMerkleTreeManager :: "'t MerkleTreeManager" where
  "newMerkleTreeManager =
     \<lparr>merkleTree = None, credentials = [], leafNodes = [], credentialIndices = []\<rparr>"

definition newZKManager :: "'t ZKManager" where
  "newZKManager = \<lparr>poseidonHash = None, merkleTreeManager = newMerkleTreeManager\<rparr>"

definition mtm_initialize :: "'t Env \<Rightarrow> 't MerkleTreeManager \<Rightarrow> 't MerkleTreeManager" where
  "mtm_initialize env m = m\<lparr>merkleTree := Some (newTree env)\<rparr>"

definition has_key :: "'v jsmap \<Rightarrow> string \<Rightarrow> bool" where
  "has_key m k = (map_of m k \<noteq> None)"

definition mtm_addCredential ::
  "'t Env \<Rightarrow> (nat list \<Rightarrow> hashout) option \<Rightarrow> 't MerkleTreeManager \<Rightarrow> IELTSCredential
     \<Rightarrow> (error + nat) \<times> 't MerkleTreeManager" where
  "mtm_addCredential env poseidon m0 credential =
     (let m = (case merkleTree m0 of None \<Rightarrow> mtm_initialize env m0 | Some _ \<Rightarrow> m0) in
      case merkleTree m of
        None \<Rightarrow> (Inl TreeNotInitialized, m)
      | Some tree \<Rightarrow>
          (case hashCredential env poseidon credential of
             Inl e \<Rightarrow> (Inl e, m)
           | Inr credentialHash \<Rightarrow>
               if has_key (credentials m) (cred_id credential)
               then (Inl (AlreadyRegistered (cred_id credential)), m)
               else
                 (let treeIndex = treeSize env tree - 1 in
                  case treeInsert env tree credentialHash of
                    Inl msg \<Rightarrow>
                      (if includes_str msg ''already exists'' then (Inl HashAlreadyExists, m)
                       else (Inl (LibraryError msg), m))
                  | Inr tree' \<Rightarrow>
                      (Inr treeIndex,
                       m\<lparr>merkleTree := Some tree',
                         credentials := AList.update (cred_id credential) credential (credentials m),
                         leafNodes := AList.update (cred_id credential) credentialHash (leafNodes m),
                         credentialIndices :=
                           AList.update (cred_id credential) treeIndex (credentialIndices m)\<rparr>))))"

definition getRoot :: "'t Env \<Rightarrow> 't MerkleTreeManager \<Rightarrow> string" where
  "getRoot env m =
     (case merkleTree m of None \<Rightarrow> ''0'' | Some tree \<Rightarrow> bigint_toString (treeRoot env tree))"

text \<open>
  The loop of \<open>generateMembershipProof\<close> over the levels \<open>level, ..., depth - 1\<close>
  (\<open>n\<close> levels are left): it pushes the string \<open>'0'\<close> as the sibling of every level and the
  parity of the running index as the direction.
\<close>

fun membershipLevels :: "nat \<Rightarrow> nat \<Rightarrow> string list \<Rightarrow> nat list \<Rightarrow> string list \<times> nat list" where
  "membershipLevels 0 currentIndex sibs dirs = (sibs, dirs)"
| "membershipLevels (Suc n) currentIndex sibs dirs =
     (let isRightChild = (currentIndex mod 2 = 1) in
      membershipLevels n (currentIndex div 2)
        (sibs @ [''0'']) (dirs @ [if isRightChild then 1 else 0]))"

text \<open>
  The \<open>catch\<close> branch of \<open>generateMembershipProof\<close> is not modelled: nothing in the
  loop throws.
\<close>

definition generateMembershipProof ::
  "'t MerkleTreeManager \<Rightarrow> nat \<Rightarrow> nat \<Rightarrow> error + MembershipProof" where
  "generateMembershipProof m credentialHash leafIdx =
     (case merkleTree m of
        None \<Rightarrow> Inl TreeNotInitialized
      | Some _ \<Rightarrow>
          (let depth = 32;
               (sibs, dirs) = membershipLevels depth leafIdx [] []
           in Inr \<lparr>leafIndex = leafIdx, siblings = sibs, directions = dirs\<rparr>))"

definition generateNonMembershipProof ::
  "'t Env \<Rightarrow> 't MerkleTreeManager \<Rightarrow> nat \<Rightarrow> NonMembershipProof option" where
  "generateNonMembershipProof env m queryValue =
     (case merkleTree m of
        None \<Rightarrow> None
      | Some tree \<Rightarrow>
          (case createNonMembershipProof env tree queryValue of
             None \<Rightarrow> None
           | Some p \<Rightarrow>
               Some \<lparr>query = bigint_toString queryValue,
                     preLeaf = \<lparr>pl_val = bigint_toString (lib_val p),
                                pl_nextVal = bigint_toString (lib_nextVal p),
                                pl_nextIdx = lib_nextIdx p\<rparr>,
                     nm_path = map bigint_toString (lib_path p),
                     nm_directions = lib_directions p\<rparr>))"

text \<open>\<open>xs.map(BigInt)\<close>: the first string that is no bigint makes the whole call throw.\<close>

fun mapBigInt :: "string list \<Rightarrow> nat list option" where
  "mapBigInt [] = Some []"
| "mapBigInt (s # ss) =
     (case BigInt s of
        None \<Rightarrow> None
      | Some n \<Rightarrow> (case mapBigInt ss of None \<Rightarrow> None | Some ns \<Rightarrow> Some (n # ns)))"

definition verifyNonMembershipProof ::
  "'t Env \<Rightarrow> 't MerkleTreeManager \<Rightarrow> NonMembershipProof \<Rightarrow> bool" where
  "verifyNonMembershipProof env m nmp =
     (case merkleTree m of
        None \<Rightarrow> False
      | Some tree \<Rightarrow>
          (case (BigInt (query nmp), BigInt (pl_val (preLeaf nmp)),
                 BigInt (pl_nextVal (preLeaf nmp)), mapBigInt (nm_path nmp)) of
             (Some q, Some v, Some nv, Some p) \<Rightarrow>
               (case treeVerifyNonMembershipProof env tree
                       \<lparr>lib_query = q, lib_val = v, lib_nextVal = nv,
                        lib_nextIdx = pl_nextIdx (preLeaf nmp), lib_path = p,
                        lib_directions = nm_directions nmp,
                        lib_root = Some (treeRoot env tree)\<rparr> of
                  None \<Rightarrow> False
                | Some b \<Rightarrow> b)
           | _ \<Rightarrow> False))"

section \<open>ProofGenerator (proof-generator.ts)\<close>

text \<open>
  The read of a name that is no own property of an object whose prototype is
  \<open>Object.prototype\<close>: the inherited function or object, or \<open>undefined\<close>.
\<close>

definition inherited :: "string \<Rightarrow> jsval" where
  "inherited k = (if k \<in> set objectPrototypeNames then JObject else JUndefined)"

text \<open>Property reads: \<open>credential.scores[scoreType]\<close> and \<open>(credential as any)[field]\<close>.\<close>

definition scoreOf :: "Scores \<Rightarrow> string \<Rightarrow> jsval" where
  "scoreOf s scoreType =
     (if scoreType = ''listening'' then JNum (listening s)
      else if scoreType = ''reading'' then JNum (reading s)
      else if scoreType = ''writing'' then JNum (writing s)
      else if scoreType = ''speaking'' then JNum (speaking s)
      else if scoreType = ''overall'' then JNum (overall s)
      else inherited scoreType)"

definition propertyOf :: "IELTSCredential \<Rightarrow> string \<Rightarrow> jsval" where
  "propertyOf c field =
     (if field = ''id'' then JStr (cred_id c)
      else if field = ''holder'' then JStr (cred_holder c)
      else if field = ''name'' then JStr (cred_name c)
      else if field = ''dateOfBirth'' then JStr (dateOfBirth c)
      else if field = ''scores'' then JScores (scores c)
      else if field = ''certificationDate'' then JStr (certificationDate c)
      else if field = ''expiryDate'' then JStr (expiryDate c)
      else if field = ''testCenter'' then JStr (testCenter c)
      else if field = ''certificateNumber'' then JStr (certificateNumber c)
      else inherited field)"

text \<open>
  The relational operators on a JavaScript value and a number. The value is converted
  to a number first: \<open>undefined\<close> and an object convert to NaN, a string converts by
  \<open>toNumber\<close>. A comparison with NaN is false.
\<close>

definition valueToNumber :: "(string \<Rightarrow> number) \<Rightarrow> jsval \<Rightarrow> number" where
  "valueToNumber toNum v =
     (case v of
        JNum a \<Rightarrow> a
      | JStr s \<Rightarrow> toNum s
      | JUndefined \<Rightarrow> NaN
      | JScores _ \<Rightarrow> NaN
      | JObject \<Rightarrow> NaN)"

definition js_lt :: "(string \<Rightarrow> number) \<Rightarrow> jsval \<Rightarrow> number \<Rightarrow> bool" where
  "js_lt toNum v r = num_lt (valueToNumber toNum v) r"

definition js_gt :: "(string \<Rightarrow> number) \<Rightarrow> jsval \<Rightarrow> number \<Rightarrow> bool" where
  "js_gt toNum v r = num_gt (valueToNumber toNum v) r"

text \<open>Truthiness: \<open>undefined\<close>, \<open>null\<close>, 0, NaN and the empty string are falsy.\<close>

definition truthy :: "jsval \<Rightarrow> bool" where
  "truthy v =
     (case v of
        JUndefined \<Rightarrow> False
      | JNum a \<Rightarrow> a \<noteq> Finite 0 \<and> a \<noteq> NaN \<and> a \<noteq> Null
      | JStr s \<Rightarrow> s \<noteq> []
      | JScores _ \<Rightarrow> True
      | JObject \<Rightarrow> True)"

text \<open>The loop that fills \<open>revealedAttributes\<close> from the requested fields.\<close>

fun revealFields :: "IELTSCredential \<Rightarrow> string list \<Rightarrow> jsval jsmap \<Rightarrow> jsval jsmap" where
  "revealFields credential [] revealed = revealed"
| "revealFields credential (field # others) revealed =
     revealFields credential others
       (setProperty field
          (if includes_str field ''scores.''
           then (case split_str (CHR ''.'') field of
                   _ # scoreType # _ \<Rightarrow> scoreOf (scores credential) scoreType
                 | _ \<Rightarrow> JUndefined)
           else propertyOf credential field)
          revealed)"

text \<open>The loop over \<open>Object.entries(minimumScores)\<close>: the first score below its minimum throws.\<close>

fun verifyMinimumScores ::
  "(string \<Rightarrow> number) \<Rightarrow> IELTSCredential \<Rightarrow> number jsmap \<Rightarrow> error + unit" where
  "verifyMinimumScores toNum credential [] = Inr ()"
| "verifyMinimumScores toNum credential ((scoreType, minScore) # rest) =
     (if js_lt toNum (scoreOf (scores credential) scoreType) minScore
      then Inl (MinimumScoreNotMet scoreType)
      else verifyMinimumScores toNum credential rest)"

definition generateZKProof ::
  "'t Env \<Rightarrow> string \<Rightarrow> 't MerkleTreeManager \<Rightarrow> string \<Rightarrow> string list
     \<Rightarrow> number jsmap option \<Rightarrow> error + ZKProof" where
  "generateZKProof env now m credId revealedFields minScores =
     (case map_of (credentials m) credId of
        None \<Rightarrow> Inl CredentialNotFound
      | Some credential \<Rightarrow>
     (case map_of (leafNodes m) credId of
        None \<Rightarrow> Inl CredentialHashNotFound
      | Some credentialHash \<Rightarrow>
     if credentialHash = 0 then Inl CredentialHashNotFound else
     (case map_of (credentialIndices m) credId of
        None \<Rightarrow> Inl CredentialIndexNotFound
      | Some credentialIndex \<Rightarrow>
     (case generateMembershipProof m credentialHash credentialIndex of
        Inl e \<Rightarrow> Inl e
      | Inr memProof \<Rightarrow>
          (let nonMemProof = generateNonMembershipProof env m (credentialHash + 1);
               merkleProof =
                 \<lparr>leaf = bigint_toString credentialHash,
                  path = siblings memProof,
                  indices = [credentialIndex],
                  root_mp = getRoot env m,
                  membershipProof = Some memProof,
                  nonMembershipProof = nonMemProof\<rparr>;
               revealed = revealFields credential revealedFields []
           in case (case minScores of
                      None \<Rightarrow> Inr ()
                    | Some ms \<Rightarrow>
                        verifyMinimumScores (toNumber env) credential (objectOrder ms)) of
                Inl e \<Rightarrow> Inl e
              | Inr _ \<Rightarrow>
                  Inr \<lparr>proofType = ''IndexedMerkleTreeProof2023'',
                       created = now,
                       proofPurpose = ''authentication'',
                       merkleRoot = getRoot env m,
                       zkProof = Some merkleProof,
                       revealedAttributes = revealed\<rparr>)))))"

section \<open>ProofVerifier (proof-verifier.ts)\<close>

text \<open>The loop of \<open>verifyMembershipProof\<close>; \<open>None\<close> is an exception of \<open>BigInt\<close>.\<close>

fun membershipPath ::
  "(nat list \<Rightarrow> hashout) \<Rightarrow> string list \<Rightarrow> nat list \<Rightarrow> nat \<Rightarrow> nat option" where
  "membershipPath poseidon [] dirs currentHash = Some currentHash"
| "membershipPath poseidon (s # sibs) dirs currentHash =
     (case BigInt s of
        None \<Rightarrow> None
      | Some sibling \<Rightarrow>
          (let direction = (case dirs of [] \<Rightarrow> None | d # _ \<Rightarrow> Some d);
               hashResult = (if direction = Some 0 then poseidon [currentHash, sibling]
                             else poseidon [sibling, currentHash])
           in case convertPoseidonToBigInt hashResult of
                None \<Rightarrow> None
              | Some h \<Rightarrow> membershipPath poseidon sibs (tl dirs) h))"

definition verifyMembershipProof ::
  "(nat list \<Rightarrow> hashout) option \<Rightarrow> string \<Rightarrow> MembershipProof \<Rightarrow> string \<Rightarrow> bool" where
  "verifyMembershipProof poseidonOpt leafHash memProof expectedRoot =
     (case poseidonOpt of
        None \<Rightarrow> False
      | Some poseidon \<Rightarrow>
          (case BigInt leafHash of
             None \<Rightarrow> False
           | Some h \<Rightarrow>
               (case membershipPath poseidon (siblings memProof) (directions memProof) h of
                  None \<Rightarrow> False
                | Some computed \<Rightarrow> bigint_toString computed = expectedRoot)))"

definition verifyMerkleProof :: "MerkleProof option \<Rightarrow> bool" where
  "verifyMerkleProof mpOpt =
     (case mpOpt of None \<Rightarrow> False | Some mp \<Rightarrow> truthy_str (leaf mp) \<and> truthy_str (root_mp mp))"

text \<open>What \<open>verifyZKProof\<close> writes to the console about the sub-proofs.\<close>

datatype logmsg = MembershipVerified | MembershipFailedContinuing | NonMembershipFailed

definition verifyZKProof ::
  "'t Env \<Rightarrow> 't ZKManager \<Rightarrow> ZKProof option \<Rightarrow> string option \<Rightarrow> bool \<times> logmsg list" where
  "verifyZKProof env zk proofOpt expectedRoot =
     (case proofOpt of
        None \<Rightarrow> (False, [])
      | Some prf \<Rightarrow>
     (case zkProof prf of
        None \<Rightarrow> (False, [])
      | Some mp \<Rightarrow>
          if \<not> truthy_str (merkleRoot prf) then (False, [])
          else if (case expectedRoot of
                     None \<Rightarrow> False
                   | Some r \<Rightarrow> truthy_str r \<and> merkleRoot prf \<noteq> r) then (False, [])
          else
            (let log1 =
                   (case membershipProof mp of
                      None \<Rightarrow> []
                    | Some memProof \<Rightarrow>
                        if verifyMembershipProof (poseidonHash zk) (leaf mp) memProof (merkleRoot prf)
                        then [MembershipVerified] else [MembershipFailedContinuing]);
                 log2 =
                   (case nonMembershipProof mp of
                      None \<Rightarrow> []
                    | Some nmp \<Rightarrow>
                        if verifyNonMembershipProof env (merkleTreeManager zk) nmp
                        then [] else [NonMembershipFailed]);
                 hasValidStructure = verifyMerkleProof (Some mp);
                 hasValidRoot = (truthy_str (merkleRoot prf) \<and> merkleRoot prf \<noteq> ''0'')
             in (hasValidStructure \<and> hasValidRoot, log1 @ log2))))"

section \<open>StateManager (state-manager.ts)\<close>

definition stateFilePath :: "string \<Rightarrow> string" where
  "stateFilePath filePath = replace_str filePath ''.json'' ''-state.json''"

text \<open>Writing a file: \<open>writeFileSync\<close> and the library's \<open>saveToFile\<close>.\<close>

definition writeFile :: "'t filesystem \<Rightarrow> string \<Rightarrow> 't fsfile \<Rightarrow> error + 't filesystem" where
  "writeFile fs p f =
     (if fs_writable fs p then Inr (fs\<lparr>fs_files := (fs_files fs)(p \<mapsto> f)\<rparr>)
      else Inl FileSystemError)"

text \<open>
  The credential that \<open>JSON.parse\<close> reads back from what \<open>JSON.stringify\<close> wrote: its
  strings are unchanged, its scores go through \<open>jsonNumber\<close>.
\<close>

definition jsonCredential :: "IELTSCredential \<Rightarrow> IELTSCredential" where
  "jsonCredential c =
     c\<lparr>scores := \<lparr>listening = jsonNumber (listening (scores c)),
                    reading = jsonNumber (reading (scores c)),
                    writing = jsonNumber (writing (scores c)),
                    speaking = jsonNumber (speaking (scores c)),
                    overall = jsonNumber (overall (scores c))\<rparr>\<rparr>"

text \<open>
  \<open>saveTreeState\<close> writes the tree snapshot to \<open>filePath\<close> and then the side tables to
  the state file, in this order. \<open>Object.fromEntries\<close> makes an object of each table,
  and \<open>JSON.stringify\<close> writes the properties of the object in their enumeration
  order. A write that fails is reported as a failure to save; the snapshot that was
  written before it stays.
\<close>

definition saveTreeState ::
  "'t MerkleTreeManager \<Rightarrow> 't filesystem \<Rightarrow> string \<Rightarrow> (error + unit) \<times> 't filesystem" where
  "saveTreeState m fs filePath =
     (case merkleTree m of
        None \<Rightarrow> (Inl TreeNotInitialized, fs)
      | Some tree \<Rightarrow>
          (case writeFile fs filePath (TreeSnapshot tree) of
             Inl e \<Rightarrow> (Inl (SaveFailed e), fs)
           | Inr fs1 \<Rightarrow>
               (let additionalState =
                      \<lparr>as_credentials =
                         objectOrder (map (\<lambda>(k, v). (k, jsonCredential v)) (credentials m)),
                       as_leafNodes =
                         objectOrder (map (\<lambda>(k, v). (k, bigint_toString v)) (leafNodes m)),
                       as_credentialIndices = objectOrder (credentialIndices m)\<rparr>
                in case writeFile fs1 (stateFilePath filePath) (StateJson additionalState) of
                     Inl e \<Rightarrow> (Inl (SaveFailed e), fs1)
                   | Inr fs2 \<Rightarrow> (Inr (), fs2))))"

text \<open>The loops that rebuild a \<open>Map\<close> from the entries of a parsed object.\<close>

fun restoreEntries :: "'v jsmap \<Rightarrow> 'v jsmap \<Rightarrow> 'v jsmap" where
  "restoreEntries [] acc = acc"
| "restoreEntries ((k, v) # es) acc = restoreEntries es (AList.update k v acc)"

fun restoreLeafNodes :: "string jsmap \<Rightarrow> nat jsmap \<Rightarrow> nat jsmap option" where
  "restoreLeafNodes [] acc = Some acc"
| "restoreLeafNodes ((k, h) # es) acc =
     (case BigInt h of
        None \<Rightarrow> None
      | Some n \<Rightarrow> restoreLeafNodes es (AList.update k n acc))"

text \<open>
  \<open>loadTreeState\<close> sets the tree as soon as the library has loaded it, and each table as
  soon as its loop is done: a later failure leaves them set. \<open>Object.entries\<close> reads the
  properties of each parsed object in their enumeration order.
\<close>

definition loadTreeState ::
  "'t Env \<Rightarrow> 't ZKManager \<Rightarrow> 't filesystem \<Rightarrow> string \<Rightarrow> (error + unit) \<times> 't ZKManager" where
  "loadTreeState env zk fs filePath =
     (case fs_files fs filePath of
        None \<Rightarrow> (Inl (LoadFailed (LibraryError ''no such file'')), zk)
      | Some f \<Rightarrow>
     (case loadFromFile env f of
        None \<Rightarrow> (Inl (LoadFailed (LibraryError ''invalid snapshot'')), zk)
      | Some loadedTree \<Rightarrow>
          (let m1 = (merkleTreeManager zk)\<lparr>merkleTree := Some loadedTree\<rparr>;
               initPoseidon = (\<lambda>z. case poseidonHash z of
                                       None \<Rightarrow> z\<lparr>poseidonHash := Some (buildPoseidon env)\<rparr>
                                     | Some _ \<Rightarrow> z)
           in case fs_files fs (stateFilePath filePath) of
                None \<Rightarrow> (Inr (), initPoseidon (zk\<lparr>merkleTreeManager := m1\<rparr>))
              | Some (TreeSnapshot _) \<Rightarrow>
                  (Inl (LoadFailed TypeError), zk\<lparr>merkleTreeManager := m1\<rparr>)
              | Some (StateJson additionalState) \<Rightarrow>
                  (let m2 = m1\<lparr>credentials :=
                                 restoreEntries (objectOrder (as_credentials additionalState)) []\<rparr>
                   in case restoreLeafNodes (objectOrder (as_leafNodes additionalState)) [] of
                        None \<Rightarrow> (Inl (LoadFailed TypeError), zk\<lparr>merkleTreeManager := m2\<rparr>)
                      | Some restored \<Rightarrow>
                          (let m3 = m2\<lparr>leafNodes := restored,
                                       credentialIndices :=
                                         restoreEntries
                                           (objectOrder (as_credentialIndices additionalState)) []\<rparr>
                           in (Inr (), initPoseidon (zk\<lparr>merkleTreeManager := m3\<rparr>)))))))"

section \<open>ZKManager (zk-manager/index.ts)\<close>

definition zk_initialize :: "'t Env \<Rightarrow> 't ZKManager \<Rightarrow> 't ZKManager" where
  "zk_initialize env zk =
     zk\<lparr>poseidonHash := Some (buildPoseidon env),
        merkleTreeManager := mtm_initialize env (merkleTreeManager zk)\<rparr>"

definition addCredential ::
  "'t Env \<Rightarrow> 't ZKManager \<Rightarrow> IELTSCredential \<Rightarrow> (error + nat) \<times> 't ZKManager" where
  "addCredential env zk0 credential =
     (let zk = (case poseidonHash zk0 of None \<Rightarrow> zk_initialize env zk0 | Some _ \<Rightarrow> zk0) in
      case mtm_addCredential env (poseidonHash zk) (merkleTreeManager zk) credential of
        (r, m') \<Rightarrow> (r, zk\<lparr>merkleTreeManager := m'\<rparr>))"

text \<open>A sequence of insertions, each of which has to succeed.\<close>

fun addCredentials ::
  "'t Env \<Rightarrow> 't ZKManager \<Rightarrow> IELTSCredential list \<Rightarrow> error + 't ZKManager" where
  "addCredentials env zk [] = Inr zk"
| "addCredentials env zk (c # cs) =
     (case addCredential env zk c of
        (Inl e, _) \<Rightarrow> Inl e
      | (Inr _, zk') \<Rightarrow> addCredentials env zk' cs)"

section \<open>BBSManager (bbs-manager.ts)\<close>

text \<open>
  The messages of a credential; \<open>MNum n\<close> is the string \<open>n.toString()\<close>, which does not
  exist for \<open>null\<close>.
\<close>

definition credentialToMessages :: "IELTSCredential \<Rightarrow> error + message list" where
  "credentialToMessages credential =
     (if Null \<in> set (scoreList (scores credential)) then Inl TypeError
      else Inr
       ([MStr (cred_id credential), MStr (cred_holder credential),
         MStr (cred_name credential), MStr (dateOfBirth credential)] @
        map MNum (scoreList (scores credential)) @
        [MStr (certificationDate credential), MStr (expiryDate credential),
         MStr (testCenter credential), MStr (certificateNumber credential)]))"

text \<open>
  \<open>verifyCredential\<close> reads the properties of both arguments before it calls the
  primitive: a missing credential subject or a missing proof is a TypeError.
\<close>

definition verifyCredential ::
  "'t Env \<Rightarrow> IELTSCredential option \<Rightarrow> BBSProof option \<Rightarrow> error + bool" where
  "verifyCredential env credentialOpt proofOpt =
     (case credentialOpt of
        None \<Rightarrow> Inl TypeError
      | Some credential \<Rightarrow>
          (case credentialToMessages credential of
             Inl e \<Rightarrow> Inl e
           | Inr messages \<Rightarrow>
               (case proofOpt of
                  None \<Rightarrow> Inl TypeError
                | Some prf \<Rightarrow>
                    Inr (blsVerify env (publicKey prf) messages (signature prf)))))"

section \<open>Holder (holder.ts)\<close>

record 't Holder =
  holderId :: string
  h_credentials :: "VerifiableCredential jsmap"
  h_zkManager :: "'t ZKManager"
  h_trustedIssuers :: "string set"

definition storeCredential ::
  "'t Env \<Rightarrow> 't Holder \<Rightarrow> VerifiableCredential \<Rightarrow> (error + unit) \<times> 't Holder" where
  "storeCredential env h credential =
     (if issuer credential \<notin> h_trustedIssuers h then (Inl UntrustedIssuer, h)
      else
        (case verifyCredential env (credentialSubject credential) (vc_proof credential) of
           Inl e \<Rightarrow> (Inl e, h)
         | Inr isSignatureValid \<Rightarrow>
             if \<not> isSignatureValid then (Inl InvalidSignature, h)
             else
               (case (credentialSubject credential, vc_proof credential) of
                  (Some subject, Some _) \<Rightarrow>
                    (case addCredential env (h_zkManager h) subject of
                       (Inl e, zk') \<Rightarrow> (Inl e, h\<lparr>h_zkManager := zk'\<rparr>)
                     | (Inr _, zk') \<Rightarrow>
                         (Inr (),
                          h\<lparr>h_zkManager := zk',
                            h_credentials :=
                              AList.update (vc_id credential) credential (h_credentials h)\<rparr>))
                | _ \<Rightarrow> (Inl MissingRequiredFields, h))))"

section \<open>Verifier (verifier.ts)\<close>

record 't Verifier =
  verifierId :: string
  v_zkManager :: "'t ZKManager"
  v_trustedIssuers :: "string set"
  registry :: "Registry option"

record VerificationDetails =
  credentialValid :: bool
  issuerTrusted :: bool
  zkProofValid :: bool
  requirementsMet :: bool
  notRevoked :: bool

record VerificationResult =
  isValid :: bool
  details :: VerificationDetails
  revealedData :: "jsval jsmap"

text \<open>
  The read \<open>revealedAttributes[k]\<close>: the own property, or else what the object inherits.
  It is \<open>undefined\<close> when the key is absent and not inherited, or holds \<open>undefined\<close>.
\<close>

definition lookup :: "jsval jsmap \<Rightarrow> string \<Rightarrow> jsval" where
  "lookup revealed k = (case map_of revealed k of None \<Rightarrow> inherited k | Some v \<Rightarrow> v)"

fun requiredFieldsPresent :: "jsval jsmap \<Rightarrow> string list \<Rightarrow> bool" where
  "requiredFieldsPresent revealed [] = True"
| "requiredFieldsPresent revealed (field # others) =
     (if lookup revealed field = JUndefined then False
      else requiredFieldsPresent revealed others)"

definition scoreField :: "string \<Rightarrow> string" where
  "scoreField scoreType =
     (if startsWith scoreType ''scores.'' then scoreType else ''scores.'' @ scoreType)"

fun minimumScoresMet :: "(string \<Rightarrow> number) \<Rightarrow> jsval jsmap \<Rightarrow> number jsmap \<Rightarrow> bool" where
  "minimumScoresMet toNum revealed [] = True"
| "minimumScoresMet toNum revealed ((scoreType, minValue) # rest) =
     (let actualScore = lookup revealed (scoreField scoreType)
      in if actualScore \<noteq> JUndefined \<and> js_lt toNum actualScore minValue then False
         else minimumScoresMet toNum revealed rest)"

definition checkRequirements ::
  "'t Env \<Rightarrow> jsval jsmap \<Rightarrow> PresentationRequest option \<Rightarrow> bool" where
  "checkRequirements env revealed request =
     (case request of
        None \<Rightarrow> length (map fst revealed) > 0
      | Some req \<Rightarrow>
          if \<not> requiredFieldsPresent revealed (requiredFields req) then False
          else if (case minimumScores req of
                     None \<Rightarrow> False
                   | Some ms \<Rightarrow>
                       \<not> minimumScoresMet (toNumber env) revealed (objectOrder ms))
               then False
          else if truthy (lookup revealed ''scores.overall'') \<and>
                  (js_lt (toNumber env) (lookup revealed ''scores.overall'') (Finite 0) \<or>
                   js_gt (toNumber env) (lookup revealed ''scores.overall'') (Finite 9))
               then False
          else True)"

definition verifyPresentation ::
  "'t Env \<Rightarrow> 't Verifier \<Rightarrow> VerifiablePresentation \<Rightarrow> PresentationRequest option
     \<Rightarrow> VerificationResult" where
  "verifyPresentation env v presentation request =
     (let details0 = \<lparr>credentialValid = False, issuerTrusted = False, zkProofValid = False,
                      requirementsMet = False, notRevoked = True\<rparr> in
      case verifiableCredential presentation of
        [] \<Rightarrow> \<lparr>isValid = False, details = details0, revealedData = []\<rparr>
      | credential # _ \<Rightarrow>
          (let details1 =
                 (case registry v of
                    None \<Rightarrow> details0
                  | Some reg \<Rightarrow>
                      details0\<lparr>notRevoked := \<not> isCredentialRevoked reg (vc_id credential)\<rparr>);
               details2 = details1\<lparr>issuerTrusted := issuer credential \<in> v_trustedIssuers v\<rparr>
           in case verifyCredential env (credentialSubject credential) (vc_proof credential) of
                Inl e \<Rightarrow> \<lparr>isValid = False, details = details2, revealedData = []\<rparr>
              | Inr valid \<Rightarrow>
                  (let details3 = details2\<lparr>credentialValid := valid\<rparr>;
                       details4 = details3\<lparr>zkProofValid :=
                           fst (verifyZKProof env (v_zkManager v) (vp_proof presentation) None)\<rparr>
                   in case vp_proof presentation of
                        None \<Rightarrow> \<lparr>isValid = False, details = details4, revealedData = []\<rparr>
                      | Some prf \<Rightarrow>
                          (let details5 = details4\<lparr>requirementsMet :=
                                 checkRequirements env (revealedAttributes prf) request\<rparr>
                           in \<lparr>isValid = (credentialValid details5 \<and> issuerTrusted details5 \<and>
                                           zkProofValid details5 \<and> requirementsMet details5 \<and>
                                           notRevoked details5),
                               details = details5,
                               revealedData = revealedAttributes prf\<rparr>))))"

section \<open>Sample inputs\<close>

text \<open>Concrete inputs on which the definitions are evaluated below.\<close>

definition sampleEntry :: RegistryEntry where
  "sampleEntry =
     \<lparr>credentialId = ''cred-1'', re_issuer = ''issuer-A'', re_holder = ''alice'',
      re_issuanceDate = ''2024-01-01'', revoked = False, merkleTreeIndex = Some 0\<rparr>"

definition sampleRegistry :: Registry where
  "sampleRegistry =
     \<lparr>entries = [(''cred-1'', sampleEntry),
                 (''cred-2'', sampleEntry\<lparr>credentialId := ''cred-2'', re_issuer := ''issuer-B''\<rparr>)],
      merkleTreeIndices = [(''cred-1'', 0), (''cred-2'', 1)]\<rparr>"

text \<open>
  A small instance of the external collaborators: the tree state is the list of its
  leaves after an initial leaf, the hash and the root are polynomial checksums, a signature verifies when it
  equals the public key, and only a tree snapshot loads as a tree.
\<close>

definition sampleEnv :: "nat list Env" where
  "sampleEnv =
     \<lparr>buildPoseidon = (\<lambda>xs. HBigInt (foldl (\<lambda>a x. (31 * a + x + 7) mod 1000003) 0 xs)),
      newTree = [0],
      treeSize = length,
      treeRoot = (\<lambda>t. foldl (\<lambda>a x. (31 * a + x + 7) mod 1000003) 1 t),
      treeInsert = (\<lambda>t h. if h \<in> set (tl t) then Inl ''Leaf already exists''
                           else Inr (t @ [h])),
      createNonMembershipProof = (\<lambda>t q. None),
      treeVerifyNonMembershipProof = (\<lambda>t p. Some False),
      loadFromFile = (\<lambda>f. case f of TreeSnapshot t \<Rightarrow> Some t | StateJson _ \<Rightarrow> None),
      blsVerify = (\<lambda>pk msgs sg. sg = pk),
      toNumber = (\<lambda>s. NaN),
      numberToString = (\<lambda>r. ''#'')\<rparr>"

definition sampleCredential :: IELTSCredential where
  "sampleCredential =
     \<lparr>cred_id = ''cred-1'', cred_holder = ''alice'', cred_name = ''Alice'',
      dateOfBirth = ''1995-03-15'',
      scores = \<lparr>listening = Finite (17 / 2), reading = Finite 8, writing = Finite (15 / 2),
                speaking = Finite 8, overall = Finite 8\<rparr>,
      certificationDate = ''2024-08-01'', expiryDate = ''2026-08-01'',
      testCenter = ''London'', certificateNumber = ''BC1''\<rparr>"

definition sampleBBSProof :: BBSProof where
  "sampleBBSProof =
     \<lparr>bbs_type = ''BbsBlsSignature2020'', bbs_created = ''2024-08-01'',
      bbs_proofPurpose = ''assertionMethod'', verificationMethod = ''did:example:issuer#key-1'',
      signature = [1, 2, 3], publicKey = [1, 2, 3]\<rparr>"

definition sampleVC :: VerifiableCredential where
  "sampleVC =
     \<lparr>vc_id = ''cred-1'', vc_type = [''VerifiableCredential'', ''IELTSCredential''],
      issuer = ''issuer-A'', issuanceDate = ''2024-08-01'',
      credentialSubject = Some sampleCredential, vc_proof = Some sampleBBSProof\<rparr>"

definition sampleMerkleProof :: MerkleProof where
  "sampleMerkleProof =
     \<lparr>leaf = ''123'', path = [], indices = [], root_mp = ''456'',
      membershipProof = Some \<lparr>leafIndex = 0, siblings = [], directions = []\<rparr>,
      nonMembershipProof = None\<rparr>"

definition sampleZKProof :: ZKProof where
  "sampleZKProof =
     \<lparr>proofType = ''IndexedMerkleTreeProof2023'', created = ''2024-08-02'',
      proofPurpose = ''authentication'', merkleRoot = ''456'',
      zkProof = Some sampleMerkleProof,
      revealedAttributes = [(''name'', JStr ''Alice'')]\<rparr>"

definition samplePresentation :: VerifiablePresentation where
  "samplePresentation =
     \<lparr>vp_id = ''presentation-1'', vp_type = [''VerifiablePresentation''],
      vp_holder = ''alice'', verifiableCredential = [sampleVC], vp_proof = Some sampleZKProof\<rparr>"

definition sampleZKManager :: "nat list ZKManager" where
  "sampleZKManager =
     \<lparr>poseidonHash = Some (buildPoseidon sampleEnv),
      merkleTreeManager =
        \<lparr>merkleTree = Some [0, 12345],
         credentials = [(''cred-1'', sampleCredential)],
         leafNodes = [(''cred-1'', 12345)],
         credentialIndices = [(''cred-1'', 0)]\<rparr>\<rparr>"

definition sampleVerifier :: "nat list Verifier" where
  "sampleVerifier =
     \<lparr>verifierId = ''verifier-1'', v_zkManager = newZKManager,
      v_trustedIssuers = {''issuer-A''}, registry = None\<rparr>"


definition sampleHolder :: "nat list Holder" where
  "sampleHolder =
     \<lparr>holderId = ''alice'', h_credentials = [], h_zkManager = newZKManager,
      h_trustedIssuers = {''issuer-A''}\<rparr>"

text \<open>
  A disclosure proof whose membership path is right for the sample hash: hashing the
  leaf 5 with the sibling 7 (the leaf on the left) gives the stated root 386.
\<close>

definition pathProof :: "string \<Rightarrow> nat \<Rightarrow> ZKProof" where
  "pathProof sibling direction =
     \<lparr>proofType = ''IndexedMerkleTreeProof2023'', created = ''2024-08-02'',
      proofPurpose = ''authentication'', merkleRoot = ''386'',
      zkProof = Some
        \<lparr>leaf = ''5'', path = [sibling], indices = [0], root_mp = ''386'',
         membershipProof = Some \<lparr>leafIndex = 0, siblings = [sibling], directions = [direction]\<rparr>,
         nonMembershipProof = None\<rparr>,
      revealedAttributes = [(''name'', JStr ''Alice'')]\<rparr>"

text \<open>The sample manager after one more leaf has been inserted into its tree.\<close>

definition sampleManager2 :: "nat list MerkleTreeManager" where
  "sampleManager2 = (merkleTreeManager sampleZKManager)\<lparr>merkleTree := Some [0, 12345, 777]\<rparr>"

text \<open>The membership proof of 32 levels whose siblings are all the string \<open>'0'\<close>.\<close>

definition placeholderProof :: "nat \<Rightarrow> nat list \<Rightarrow> MembershipProof" where
  "placeholderProof i dirs = \<lparr>leafIndex = i, siblings = replicate 32 ''0'', directions = dirs\<rparr>"


text \<open>
  A presentation of two credentials: the credential \<open>cred-2\<close> first, the credential
  \<open>cred-1\<close> second.
\<close>

definition sampleVC2 :: VerifiableCredential where
  "sampleVC2 = sampleVC\<lparr>vc_id := ''cred-2''\<rparr>"

definition samplePresentation2 :: VerifiablePresentation where
  "samplePresentation2 = samplePresentation\<lparr>verifiableCredential := [sampleVC2, sampleVC]\<rparr>"

text \<open>
  An empty file system with two directories: the working directory, and the directory
  \<open>d.json\<close>. A path into any other directory cannot be written.
\<close>

definition sampleFileSystem :: "nat list filesystem" where
  "sampleFileSystem =
     \<lparr>fs_files = (\<lambda>p. None),
      fs_writable = (\<lambda>p. \<not> includes_str p ''/'' \<or> startsWith p ''d.json/'')\<rparr>"

text \<open>
  A credential with an overall score that is NaN, and three entries of a table whose
  keys are \<open>b\<close>, \<open>10\<close> and \<open>2\<close>, in this order.
\<close>

definition nanCredential :: IELTSCredential where
  "nanCredential = sampleCredential\<lparr>scores := (scores sampleCredential)\<lparr>overall := NaN\<rparr>\<rparr>"

definition sampleIndices :: "nat jsmap" where
  "sampleIndices = [(''b'', 0), (''10'', 1), (''2'', 2)]"

section \<open>Verified properties\<close>

subsection \<open>Association lists\<close>

lemma map_of_update_alist: "map_of (AList.update k v al) = (map_of al)(k \<mapsto> v)"
  by (simp add: update_conv')

lemma map_fst_update_present:
  "map_of al k = Some v0 \<Longrightarrow> map fst (AList.update k v al) = map fst al"
  by (induction al) (auto split: if_splits)

subsection \<open>Revocation in the registry\<close>

text \<open>
  Claim C6. \<open>revokeCredential\<close> returns \<open>false\<close> and leaves the registry as it is when
  the id is unknown or the acting issuer is not the recorded issuer of the entry.
  Otherwise it returns \<open>true\<close>, the entry of the id is the old entry with the \<open>revoked\<close>
  flag set (every other field of the entry keeps its value), every other entry, the
  order of the entries and the index table are unchanged.
\<close>

theorem C6_revokeCredential:
  "(map_of (entries reg) cid = None \<or>
      (\<exists>e. map_of (entries reg) cid = Some e \<and> re_issuer e \<noteq> iss)
    \<longrightarrow> revokeCredential reg cid iss = (False, reg)) \<and>
   (\<forall>e. map_of (entries reg) cid = Some e \<and> re_issuer e = iss \<longrightarrow>
      fst (revokeCredential reg cid iss) = True \<and>
      map_of (entries (snd (revokeCredential reg cid iss)))
        = (map_of (entries reg))(cid \<mapsto> e\<lparr>revoked := True\<rparr>) \<and>
      map fst (entries (snd (revokeCredential reg cid iss))) = map fst (entries reg) \<and>
      merkleTreeIndices (snd (revokeCredential reg cid iss)) = merkleTreeIndices reg)"
  by (auto simp: revokeCredential_def map_of_update_alist map_fst_update_present)

theorem C6_revokeCredential_witness:
  "revokeCredential sampleRegistry ''cred-9'' ''issuer-A'' = (False, sampleRegistry) \<and>
   revokeCredential sampleRegistry ''cred-1'' ''issuer-B'' = (False, sampleRegistry) \<and>
   \<not> isCredentialRevoked (snd (revokeCredential sampleRegistry ''cred-1'' ''issuer-B'')) ''cred-1'' \<and>
   fst (revokeCredential sampleRegistry ''cred-1'' ''issuer-A'') \<and>
   isCredentialRevoked (snd (revokeCredential sampleRegistry ''cred-1'' ''issuer-A'')) ''cred-1'' \<and>
   \<not> isCredentialRevoked (snd (revokeCredential sampleRegistry ''cred-1'' ''issuer-A'')) ''cred-2''"
  using C6_revokeCredential [of sampleRegistry "''cred-9''" "''issuer-A''"]
        C6_revokeCredential [of sampleRegistry "''cred-1''" "''issuer-B''"]
        C6_revokeCredential [of sampleRegistry "''cred-1''" "''issuer-A''"]
  by (simp add: sampleRegistry_def sampleEntry_def isCredentialRevoked_def)

subsection \<open>Requirement checking in the verifier\<close>






subsection \<open>Presentation verification\<close>

lemma isCredentialRevoked_after_revoke:
  "revokeCredential reg cid iss = (True, reg') \<Longrightarrow> isCredentialRevoked reg' cid"
  by (auto simp: revokeCredential_def isCredentialRevoked_def update_conv'
           split: option.splits if_splits)

text \<open>
  Claim C7 (as amended). The result of \<open>verifyPresentation\<close> always carries the five
  per-check details, and \<open>isValid\<close> is their conjunction on every path (no credential,
  an exception, the normal path). Without a registry \<open>notRevoked\<close> is reported true.
  After a revocation that returned \<open>true\<close>, a verifier attached to the resulting
  registry reports \<open>notRevoked = false\<close> for every presentation whose first credential
  has that id. The first credential is the only one that \<open>verifyPresentation\<close> reads:
  with a registry, \<open>notRevoked\<close> says whether the id of the first credential is not
  revoked, whatever the other credentials of the presentation are.
\<close>

theorem C7_verifyPresentation:
  "(let r = verifyPresentation env v presentation request in
      isValid r = (credentialValid (details r) \<and> issuerTrusted (details r) \<and>
                   zkProofValid (details r) \<and> requirementsMet (details r) \<and>
                   notRevoked (details r))) \<and>
   (registry v = None \<longrightarrow>
      notRevoked (details (verifyPresentation env v presentation request))) \<and>
   (\<forall>reg cid iss reg' vc others.
      revokeCredential reg cid iss = (True, reg') \<and> registry v = Some reg' \<and>
      verifiableCredential presentation = vc # others \<and> vc_id vc = cid \<longrightarrow>
      \<not> notRevoked (details (verifyPresentation env v presentation request))) \<and>
   (\<forall>reg vc others.
      registry v = Some reg \<and> verifiableCredential presentation = vc # others \<longrightarrow>
      notRevoked (details (verifyPresentation env v presentation request))
        = (\<not> isCredentialRevoked reg (vc_id vc)))"
proof (intro conjI allI impI)
  show "let r = verifyPresentation env v presentation request in
      isValid r = (credentialValid (details r) \<and> issuerTrusted (details r) \<and>
                   zkProofValid (details r) \<and> requirementsMet (details r) \<and>
                   notRevoked (details r))"
    by (simp add: verifyPresentation_def Let_def split: list.splits sum.splits option.splits)
next
  assume "registry v = None"
  then show "notRevoked (details (verifyPresentation env v presentation request))"
    by (simp add: verifyPresentation_def Let_def split: list.splits sum.splits option.splits)
next
  fix reg cid iss reg' vc others
  assume a: "revokeCredential reg cid iss = (True, reg') \<and> registry v = Some reg' \<and>
      verifiableCredential presentation = vc # others \<and> vc_id vc = cid"
  then have "isCredentialRevoked reg' (vc_id vc)"
    using isCredentialRevoked_after_revoke by blast
  with a show "\<not> notRevoked (details (verifyPresentation env v presentation request))"
    by (simp add: verifyPresentation_def Let_def split: list.splits sum.splits option.splits)
next
  fix reg vc others
  assume "registry v = Some reg \<and> verifiableCredential presentation = vc # others"
  then show "notRevoked (details (verifyPresentation env v presentation request))
               = (\<not> isCredentialRevoked reg (vc_id vc))"
    by (simp add: verifyPresentation_def Let_def split: list.splits sum.splits option.splits)
qed

theorem C7_verifyPresentation_witness:
  "isValid (verifyPresentation sampleEnv sampleVerifier samplePresentation None) \<and>
   notRevoked (details (verifyPresentation sampleEnv sampleVerifier samplePresentation None)) \<and>
   revokeCredential sampleRegistry ''cred-1'' ''issuer-A''
     = (True, snd (revokeCredential sampleRegistry ''cred-1'' ''issuer-A'')) \<and>
   \<not> notRevoked (details (verifyPresentation sampleEnv
        (sampleVerifier\<lparr>registry := Some (snd (revokeCredential sampleRegistry ''cred-1'' ''issuer-A''))\<rparr>)
        samplePresentation None)) \<and>
   \<not> isValid (verifyPresentation sampleEnv
        (sampleVerifier\<lparr>registry := Some (snd (revokeCredential sampleRegistry ''cred-1'' ''issuer-A''))\<rparr>)
        samplePresentation None) \<and>
   notRevoked (details (verifyPresentation sampleEnv
        (sampleVerifier\<lparr>registry := Some (snd (revokeCredential sampleRegistry ''cred-1'' ''issuer-A''))\<rparr>)
        samplePresentation None))
     = (\<not> isCredentialRevoked (snd (revokeCredential sampleRegistry ''cred-1'' ''issuer-A''))
            (vc_id sampleVC))"
proof -
  let ?reg' = "snd (revokeCredential sampleRegistry ''cred-1'' ''issuer-A'')"
  let ?v' = "sampleVerifier\<lparr>registry := Some ?reg'\<rparr>"
  have r: "revokeCredential sampleRegistry ''cred-1'' ''issuer-A'' = (True, ?reg')"
    by (simp add: revokeCredential_def sampleRegistry_def sampleEntry_def)
  have p: "verifiableCredential samplePresentation = sampleVC # []" "vc_id sampleVC = ''cred-1''"
    by (simp_all add: samplePresentation_def sampleVC_def)
  have n: "registry sampleVerifier = None" by (simp add: sampleVerifier_def)
  have v: "isValid (verifyPresentation sampleEnv sampleVerifier samplePresentation None)"
    by (simp add: verifyPresentation_def verifyCredential_def verifyZKProof_def
          verifyMembershipProof_def verifyMerkleProof_def checkRequirements_def
          newZKManager_def newMerkleTreeManager_def truthy_str_def
          sampleVerifier_def samplePresentation_def sampleVC_def sampleZKProof_def
          sampleMerkleProof_def sampleBBSProof_def sampleEnv_def Let_def
          credentialToMessages_def scoreList_def sampleCredential_def)
  from C7_verifyPresentation [of sampleEnv sampleVerifier samplePresentation None] n
  have 1: "notRevoked (details (verifyPresentation sampleEnv sampleVerifier samplePresentation None))"
    by blast
  have q: "registry ?v' = Some ?reg'" by simp
  from C7_verifyPresentation [of sampleEnv ?v' samplePresentation None,
         THEN conjunct2, THEN conjunct2, THEN conjunct1, rule_format,
         OF conjI [OF r conjI [OF q conjI [OF p]]]]
  have 2: "\<not> notRevoked (details (verifyPresentation sampleEnv ?v' samplePresentation None))" .
  from C7_verifyPresentation [of sampleEnv ?v' samplePresentation None] 2
  have 3: "\<not> isValid (verifyPresentation sampleEnv ?v' samplePresentation None)"
    by (simp add: Let_def)
  from C7_verifyPresentation [of sampleEnv ?v' samplePresentation None,
         THEN conjunct2, THEN conjunct2, THEN conjunct2, rule_format,
         OF conjI [OF q p(1)]]
  have 4: "notRevoked (details (verifyPresentation sampleEnv ?v' samplePresentation None))
             = (\<not> isCredentialRevoked ?reg' (vc_id sampleVC))" .
  from v 1 r 2 3 4 show ?thesis by blast
qed

text \<open>
  The claim as stated speaks of every presentation that references the revoked id. A
  presentation that carries the revoked credential \<open>cred-1\<close> in second place, after the
  credential \<open>cred-2\<close>, is reported as not revoked, and is accepted.
\<close>

theorem C7_counterexample:
  "revokeCredential sampleRegistry ''cred-1'' ''issuer-A''
     = (True, snd (revokeCredential sampleRegistry ''cred-1'' ''issuer-A'')) \<and>
   map vc_id (verifiableCredential samplePresentation2) = [''cred-2'', ''cred-1''] \<and>
   notRevoked (details (verifyPresentation sampleEnv
        (sampleVerifier\<lparr>registry := Some (snd (revokeCredential sampleRegistry ''cred-1'' ''issuer-A''))\<rparr>)
        samplePresentation2 None)) \<and>
   isValid (verifyPresentation sampleEnv
        (sampleVerifier\<lparr>registry := Some (snd (revokeCredential sampleRegistry ''cred-1'' ''issuer-A''))\<rparr>)
        samplePresentation2 None)"
proof -
  let ?reg' = "snd (revokeCredential sampleRegistry ''cred-1'' ''issuer-A'')"
  let ?v' = "sampleVerifier\<lparr>registry := Some ?reg'\<rparr>"
  have r: "revokeCredential sampleRegistry ''cred-1'' ''issuer-A'' = (True, ?reg')"
    by (simp add: revokeCredential_def sampleRegistry_def sampleEntry_def)
  have p: "map vc_id (verifiableCredential samplePresentation2) = [''cred-2'', ''cred-1'']"
    by (simp add: samplePresentation2_def sampleVC2_def sampleVC_def)
  have n: "\<not> isCredentialRevoked ?reg' ''cred-2''"
    by (simp add: revokeCredential_def isCredentialRevoked_def sampleRegistry_def
          sampleEntry_def)
  have i: "vc_id sampleVC2 = ''cred-2''" by (simp add: sampleVC2_def)
  have v: "isValid (verifyPresentation sampleEnv ?v' samplePresentation2 None)"
    by (simp add: verifyPresentation_def i n verifyCredential_def verifyZKProof_def
          verifyMembershipProof_def verifyMerkleProof_def checkRequirements_def
          newZKManager_def newMerkleTreeManager_def truthy_str_def
          sampleVerifier_def samplePresentation2_def samplePresentation_def sampleVC2_def
          sampleVC_def sampleZKProof_def
          sampleMerkleProof_def sampleBBSProof_def sampleEnv_def Let_def
          credentialToMessages_def scoreList_def sampleCredential_def)
  have d: "notRevoked (details (verifyPresentation sampleEnv ?v' samplePresentation2 None))"
    by (simp add: verifyPresentation_def i n verifyCredential_def
          sampleVerifier_def samplePresentation2_def samplePresentation_def sampleVC2_def
          sampleVC_def sampleZKProof_def sampleBBSProof_def Let_def
          credentialToMessages_def scoreList_def sampleCredential_def)
  from r p d v show ?thesis by blast
qed

subsection \<open>Storing a credential in the holder\<close>

lemma storeCredential_untrusted:
  "issuer vc \<notin> h_trustedIssuers h \<Longrightarrow> storeCredential env h vc = (Inl UntrustedIssuer, h)"
  by (simp add: storeCredential_def)

lemma storeCredential_invalid_signature:
  "issuer vc \<in> h_trustedIssuers h \<Longrightarrow> credentialSubject vc = Some c \<Longrightarrow> vc_proof vc = Some p
   \<Longrightarrow> credentialToMessages c = Inr messages
   \<Longrightarrow> \<not> blsVerify env (publicKey p) messages (signature p)
   \<Longrightarrow> storeCredential env h vc = (Inl InvalidSignature, h)"
  by (simp add: storeCredential_def verifyCredential_def)

lemma verifyCredential_Inl: "verifyCredential env co po = Inl e \<Longrightarrow> e = TypeError"
  by (auto simp: verifyCredential_def credentialToMessages_def
      split: option.splits sum.splits if_splits)

lemma storeCredential_missing_subobject:
  "issuer vc \<in> h_trustedIssuers h \<Longrightarrow> credentialSubject vc = None \<or> vc_proof vc = None
   \<Longrightarrow> storeCredential env h vc = (Inl TypeError, h)"
  by (auto simp: storeCredential_def verifyCredential_def credentialToMessages_def
      split: option.splits)

lemma verifyCredential_Inr:
  "verifyCredential env co po = Inr b \<Longrightarrow> \<exists>c p. co = Some c \<and> po = Some p"
  by (auto simp: verifyCredential_def split: option.splits sum.splits)

lemma mtm_addCredential_never_missing_fields:
  "fst (mtm_addCredential env ps m c) \<noteq> Inl MissingRequiredFields"
  by (simp add: mtm_addCredential_def hashCredential_def Let_def
      split: option.splits sum.splits)

lemma addCredential_never_missing_fields:
  "fst (addCredential env zk c) \<noteq> Inl MissingRequiredFields"
proof -
  define zk1 where "zk1 = (case poseidonHash zk of None \<Rightarrow> zk_initialize env zk | Some _ \<Rightarrow> zk)"
  have "fst (addCredential env zk c)
          = fst (mtm_addCredential env (poseidonHash zk1) (merkleTreeManager zk1) c)"
    by (simp add: addCredential_def Let_def zk1_def split: prod.splits)
  then show ?thesis
    by (simp add: mtm_addCredential_never_missing_fields)
qed

lemma storeCredential_never_reports_missing_fields:
  "fst (storeCredential env h vc) \<noteq> Inl MissingRequiredFields"
proof (cases "issuer vc \<in> h_trustedIssuers h")
  case False
  then show ?thesis by (simp add: storeCredential_def)
next
  case True
  show ?thesis
  proof (cases "verifyCredential env (credentialSubject vc) (vc_proof vc)")
    case (Inl e)
    then have "e = TypeError"
      by (rule verifyCredential_Inl)
    with True Inl show ?thesis by (simp add: storeCredential_def)
  next
    case (Inr b)
    then obtain c p where cp: "credentialSubject vc = Some c" "vc_proof vc = Some p"
      using verifyCredential_Inr by blast
    show ?thesis
    proof (cases b)
      case False
      with True Inr show ?thesis by (simp add: storeCredential_def)
    next
      case b: True
      obtain r zk' where a: "addCredential env (h_zkManager h) c = (r, zk')"
        by (cases "addCredential env (h_zkManager h) c")
      with addCredential_never_missing_fields [of env "h_zkManager h" c]
      have "r \<noteq> Inl MissingRequiredFields" by simp
      with True Inr b cp a show ?thesis
        by (cases r) (simp_all add: storeCredential_def)
    qed
  qed
qed

lemma storeCredential_failure_keeps_store:
  "storeCredential env h vc = (Inl e, h') \<Longrightarrow> h_credentials h' = h_credentials h"
proof -
  assume s: "storeCredential env h vc = (Inl e, h')"
  show ?thesis
  proof (cases "credentialSubject vc")
    case None
    with s show ?thesis
      by (auto simp: storeCredential_def verifyCredential_def split: if_splits)
  next
    case (Some c)
    obtain r zk' where a: "addCredential env (h_zkManager h) c = (r, zk')"
      by (cases "addCredential env (h_zkManager h) c")
    show ?thesis
    proof (cases "vc_proof vc")
      case None
      with s Some show ?thesis
        by (auto simp: storeCredential_def verifyCredential_def split: if_splits sum.splits)
    next
      case p: (Some p)
      from s Some p a show ?thesis
        by (cases r; cases "credentialToMessages c")
           (auto simp: storeCredential_def verifyCredential_def split: if_splits)
    qed
  qed
qed

lemma mtm_addCredential_failure_keeps_tables:
  "mtm_addCredential env ps m c = (Inl e, m') \<Longrightarrow>
     credentials m' = credentials m \<and> leafNodes m' = leafNodes m \<and>
     credentialIndices m' = credentialIndices m"
  by (cases "merkleTree m")
     (auto simp: mtm_addCredential_def mtm_initialize_def Let_def
      split: sum.splits if_splits)

text \<open>
  Claim C8. For a credential from a trusted issuer that lacks its credential subject,
  \<open>storeCredential\<close> fails with the TypeError that \<open>verifyCredential\<close> raises when it
  reads the subject, not with the error of the check for missing fields that follows
  the signature check.
\<close>

theorem C8_missing_subject_raises_TypeError:
  "issuer (sampleVC\<lparr>credentialSubject := None\<rparr>) \<in> h_trustedIssuers sampleHolder \<and>
   storeCredential sampleEnv sampleHolder (sampleVC\<lparr>credentialSubject := None\<rparr>)
     = (Inl TypeError, sampleHolder) \<and>
   storeCredential sampleEnv sampleHolder (sampleVC\<lparr>vc_proof := None\<rparr>)
     = (Inl TypeError, sampleHolder)"
  by (simp add: storeCredential_def verifyCredential_def sampleVC_def sampleHolder_def
        credentialToMessages_def scoreList_def sampleCredential_def)

subsection \<open>Decimal strings\<close>

lemma digit_val_digit_char: "d < 10 \<Longrightarrow> digit_val (digit_char d) = Some d"
proof -
  assume "d < 10"
  then have "d \<in> {0, 1, 2, 3, 4, 5, 6, 7, 8, 9}" by auto
  then show ?thesis
    by (auto simp: digit_val_def digit_char_def)
qed

lemma digit_char_plain:
  "d < 10 \<Longrightarrow> \<not> isStrWhiteSpace (digit_char d) \<and>
     digit_char d \<notin> {CHR ''x'', CHR ''X'', CHR ''o'', CHR ''O'', CHR ''b'', CHR ''B'',
                        CHR ''+'', CHR ''-''}"
proof -
  assume "d < 10"
  then have "d \<in> {0, 1, 2, 3, 4, 5, 6, 7, 8, 9}" by auto
  then show ?thesis
    by (auto simp: digit_char_def isStrWhiteSpace_def)
qed

lemma parse_digits_append:
  "parse_digits r acc (xs @ ys) = (case parse_digits r acc xs of None \<Rightarrow> None | Some a \<Rightarrow> parse_digits r a ys)"
  by (induction xs arbitrary: acc) (auto split: option.splits)

lemma parse_digits_toString: "parse_digits 10 0 (bigint_toString n) = Some n"
proof (induction n rule: bigint_toString.induct)
  case (1 n)
  show ?case
  proof (cases "n < 10")
    case True
    then show ?thesis
      by (subst bigint_toString.simps) (simp add: digit_val_digit_char)
  next
    case False
    with 1 have ih: "parse_digits 10 0 (bigint_toString (n div 10)) = Some (n div 10)" by simp
    have "n mod 10 < 10" by simp
    with False ih show ?thesis
      by (subst bigint_toString.simps) (simp add: parse_digits_append digit_val_digit_char)
  qed
qed

lemma toString_digits:
  "bigint_toString n \<noteq> [] \<and> set (bigint_toString n) \<subseteq> digit_char ` {..<10}"
proof (induction n rule: bigint_toString.induct)
  case (1 n)
  show ?case
  proof (cases "n < 10")
    case True
    then show ?thesis
      by (subst (1 2) bigint_toString.simps) simp
  next
    case False
    with 1 have ih: "set (bigint_toString (n div 10)) \<subseteq> digit_char ` {..<10}" by simp
    have "n mod 10 < 10" by simp
    with False ih show ?thesis
      by (subst (1 2) bigint_toString.simps) simp
  qed
qed

lemma dropWhile_id: "s \<noteq> [] \<Longrightarrow> \<not> P (hd s) \<Longrightarrow> dropWhile P s = s"
  by (cases s) simp_all

lemma BigInt_decimal:
  assumes "s \<noteq> []" and "set s \<subseteq> digit_char ` {..<10}"
  shows "BigInt s = parse_digits 10 0 s"
proof -
  have p: "\<not> isStrWhiteSpace c \<and>
     c \<notin> {CHR ''x'', CHR ''X'', CHR ''o'', CHR ''O'', CHR ''b'', CHR ''B'', CHR ''+'', CHR ''-''}"
    if "c \<in> set s" for c
  proof -
    from that assms(2) obtain d where "d < 10" "c = digit_char d" by auto
    with digit_char_plain [of d] show ?thesis by simp
  qed
  from assms(1) have "hd s \<in> set s" "last s \<in> set s" by simp_all
  with p have "\<not> isStrWhiteSpace (hd s)" "\<not> isStrWhiteSpace (last s)" by simp_all
  with assms(1) have "dropWhile isStrWhiteSpace s = s"
    "dropWhile isStrWhiteSpace (rev s) = rev s"
    by (simp_all add: dropWhile_id hd_rev)
  then have t: "trim s = s" by (simp add: trim_def)
  from assms(1) obtain c cs where s: "s = c # cs" by (cases s) auto
  from p [of c] s have c: "c \<noteq> CHR ''+''" "c \<noteq> CHR ''-''" by auto
  have h: "hd cs \<notin> {CHR ''x'', CHR ''X'', CHR ''o'', CHR ''O'', CHR ''b'', CHR ''B''}"
    if "cs \<noteq> []"
  proof -
    from that s have "hd cs \<in> set s" by (cases cs) simp_all
    from p [OF this] show ?thesis by simp
  qed
  from t s have t': "trim (c # cs) = c # cs" by simp
  from c h show ?thesis
    unfolding BigInt_def s t' by (auto simp: parse_literal_def)
qed

lemma BigInt_toString: "BigInt (bigint_toString n) = Some n"
  using toString_digits [of n] by (simp add: BigInt_decimal parse_digits_toString)

subsection \<open>Verification of a disclosure proof\<close>

lemma verifyZKProof_result:
  "zkProof p = Some mp \<Longrightarrow>
   fst (verifyZKProof env zk (Some p) e) =
     (merkleRoot p \<noteq> [] \<and> (case e of None \<Rightarrow> True | Some r \<Rightarrow> r = [] \<or> r = merkleRoot p) \<and>
      leaf mp \<noteq> [] \<and> root_mp mp \<noteq> [] \<and> merkleRoot p \<noteq> ''0'')"
  by (auto simp: verifyZKProof_def verifyMerkleProof_def truthy_str_def Let_def
      split: option.splits)

text \<open>
  Claim C3 (as amended). For every proof and every non-empty expected root that differs
  from the \<open>merkleRoot\<close> of the proof, \<open>verifyZKProof\<close> returns false.
\<close>

theorem C3_root_pinning:
  "expectedRoot \<noteq> [] \<Longrightarrow> merkleRoot p \<noteq> expectedRoot \<Longrightarrow>
   \<not> fst (verifyZKProof env zk (Some p) (Some expectedRoot))"
  by (cases "zkProof p") (auto simp: verifyZKProof_result, simp add: verifyZKProof_def)

theorem C3_root_pinning_witness:
  "''999'' \<noteq> [] \<and> merkleRoot (pathProof ''7'' 0) \<noteq> ''999'' \<and>
   fst (verifyZKProof sampleEnv sampleZKManager (Some (pathProof ''7'' 0)) None) \<and>
   \<not> fst (verifyZKProof sampleEnv sampleZKManager (Some (pathProof ''7'' 0)) (Some ''999''))"
  using C3_root_pinning [of "''999''" "pathProof ''7'' 0" sampleEnv sampleZKManager]
  by (simp add: verifyZKProof_result pathProof_def)

text \<open>
  The guard is \<open>expectedRoot && proof.merkleRoot !== expectedRoot\<close>: an expected root
  that is the empty string is falsy and pins nothing, so the proof below is accepted
  although its root differs from the expected root supplied.
\<close>

theorem C3_counterexample:
  "merkleRoot (pathProof ''7'' 0) \<noteq> [] \<and>
   fst (verifyZKProof sampleEnv sampleZKManager (Some (pathProof ''7'' 0)) (Some []))"
  by (simp add: verifyZKProof_result pathProof_def)

lemma verifyZKProof_log:
  assumes "zkProof p = Some mp" and "membershipProof mp = Some memProof"
    and "fst (verifyZKProof env zk (Some p) e)"
  shows "MembershipVerified \<in> set (snd (verifyZKProof env zk (Some p) e)) \<longleftrightarrow>
         verifyMembershipProof (poseidonHash zk) (leaf mp) memProof (merkleRoot p)"
proof -
  from assms(1,3) have c: "merkleRoot p \<noteq> []"
    "(case e of None \<Rightarrow> True | Some r \<Rightarrow> r = [] \<or> r = merkleRoot p)"
    by (simp_all add: verifyZKProof_result)
  from assms(1,2) c show ?thesis
    by (cases e) (auto simp: verifyZKProof_def truthy_str_def Let_def split: option.splits)
qed

lemma verifyZKProof_ignores_membershipProof:
  assumes "zkProof p = Some mp"
  shows "fst (verifyZKProof env zk (Some (p\<lparr>zkProof := Some (mp\<lparr>membershipProof := m'\<rparr>)\<rparr>)) e)
           = fst (verifyZKProof env zk (Some p) e)"
proof -
  have "zkProof (p\<lparr>zkProof := Some (mp\<lparr>membershipProof := m'\<rparr>)\<rparr>)
          = Some (mp\<lparr>membershipProof := m'\<rparr>)"
    by simp
  from verifyZKProof_result [OF this, of env zk e] verifyZKProof_result [OF assms, of env zk e]
  show ?thesis
    by (cases e) simp_all
qed

text \<open>
  Claim C1 (as amended). \<open>verifyZKProof\<close> recomputes the root from the leaf, the
  siblings and the direction bits (\<open>verifyMembershipProof\<close>) and compares it with the
  stated \<open>merkleRoot\<close>, but it only logs the outcome. For a proof that carries a Merkle
  proof the result is true exactly when \<open>merkleRoot\<close> is non-empty and not \<open>'0'\<close>, a
  non-empty expected root equals it, and the leaf and root fields are non-empty.
  Replacing the membership proof by any other value leaves the result as it is, and
  the log says whether the recomputed root matched.
\<close>

theorem C1_membership_mismatch_only_logged:
  assumes "zkProof p = Some mp"
  shows "fst (verifyZKProof env zk (Some p) e) =
           (merkleRoot p \<noteq> [] \<and>
            (case e of None \<Rightarrow> True | Some r \<Rightarrow> r = [] \<or> r = merkleRoot p) \<and>
            leaf mp \<noteq> [] \<and> root_mp mp \<noteq> [] \<and> merkleRoot p \<noteq> ''0'') \<and>
         fst (verifyZKProof env zk (Some (p\<lparr>zkProof := Some (mp\<lparr>membershipProof := m'\<rparr>)\<rparr>)) e)
           = fst (verifyZKProof env zk (Some p) e) \<and>
         (membershipProof mp = Some memProof \<and> fst (verifyZKProof env zk (Some p) e) \<longrightarrow>
           (MembershipVerified \<in> set (snd (verifyZKProof env zk (Some p) e)) \<longleftrightarrow>
            verifyMembershipProof (poseidonHash zk) (leaf mp) memProof (merkleRoot p)))"
  using verifyZKProof_result [OF assms, of env zk e]
        verifyZKProof_ignores_membershipProof [OF assms, of env zk m' e]
        verifyZKProof_log [OF assms, of memProof env zk e]
  by blast

lemma sample_paths:
  "verifyMembershipProof (poseidonHash sampleZKManager) ''5''
      \<lparr>leafIndex = 0, siblings = [''7''], directions = [0]\<rparr> ''386''"
  "\<not> verifyMembershipProof (poseidonHash sampleZKManager) ''5''
      \<lparr>leafIndex = 0, siblings = [''8''], directions = [0]\<rparr> ''386''"
  "\<not> verifyMembershipProof (poseidonHash sampleZKManager) ''5''
      \<lparr>leafIndex = 0, siblings = [''7''], directions = [1]\<rparr> ''386''"
  by (simp_all add: verifyMembershipProof_def sampleZKManager_def sampleEnv_def BigInt_def
        trim_def isStrWhiteSpace_def parse_literal_def
        digit_val_def convertPoseidonToBigInt_def bigint_toString.simps digit_char_def)

text \<open>
  The claim as stated fails: a proof whose recomputed root matches is accepted, and it
  is still accepted after its sibling digest or its direction bit has been changed, when
  the recomputed root no longer equals the stated root.
\<close>

theorem C1_counterexample:
  "verifyMembershipProof (poseidonHash sampleZKManager) ''5''
      \<lparr>leafIndex = 0, siblings = [''7''], directions = [0]\<rparr> ''386'' \<and>
   fst (verifyZKProof sampleEnv sampleZKManager (Some (pathProof ''7'' 0)) None) \<and>
   \<not> verifyMembershipProof (poseidonHash sampleZKManager) ''5''
      \<lparr>leafIndex = 0, siblings = [''8''], directions = [0]\<rparr> ''386'' \<and>
   fst (verifyZKProof sampleEnv sampleZKManager (Some (pathProof ''8'' 0)) None) \<and>
   \<not> verifyMembershipProof (poseidonHash sampleZKManager) ''5''
      \<lparr>leafIndex = 0, siblings = [''7''], directions = [1]\<rparr> ''386'' \<and>
   fst (verifyZKProof sampleEnv sampleZKManager (Some (pathProof ''7'' 1)) None)"
  using sample_paths by (simp add: verifyZKProof_result pathProof_def)

theorem C1_membership_mismatch_only_logged_witness:
  "zkProof (pathProof ''8'' 0) \<noteq> None \<and>
   fst (verifyZKProof sampleEnv sampleZKManager (Some (pathProof ''8'' 0)) None) \<and>
   snd (verifyZKProof sampleEnv sampleZKManager (Some (pathProof ''8'' 0)) None)
     = [MembershipFailedContinuing] \<and>
   snd (verifyZKProof sampleEnv sampleZKManager (Some (pathProof ''7'' 0)) None)
     = [MembershipVerified]"
proof -
  have z: "zkProof (pathProof ''8'' 0) = Some
        \<lparr>leaf = ''5'', path = [''8''], indices = [0], root_mp = ''386'',
         membershipProof = Some \<lparr>leafIndex = 0, siblings = [''8''], directions = [0]\<rparr>,
         nonMembershipProof = None\<rparr>"
    by (simp add: pathProof_def)
  from C1_membership_mismatch_only_logged [OF z, of sampleEnv sampleZKManager None, THEN conjunct1]
  have 1: "fst (verifyZKProof sampleEnv sampleZKManager (Some (pathProof ''8'' 0)) None)"
    by (simp add: pathProof_def)
  have 2: "snd (verifyZKProof sampleEnv sampleZKManager (Some (pathProof ''8'' 0)) None)
     = [MembershipFailedContinuing]"
    using sample_paths(2) by (simp add: verifyZKProof_def pathProof_def truthy_str_def)
  have 3: "snd (verifyZKProof sampleEnv sampleZKManager (Some (pathProof ''7'' 0)) None)
     = [MembershipVerified]"
    using sample_paths(1) by (simp add: verifyZKProof_def pathProof_def truthy_str_def)
  from z 1 2 3 show ?thesis by simp
qed

subsection \<open>Generation of membership proofs\<close>

lemma membershipLevels_siblings:
  "fst (membershipLevels n i sibs dirs) = sibs @ replicate n ''0''"
  by (induction n arbitrary: i sibs dirs) (simp_all add: Let_def replicate_app_Cons_same)

lemma membershipLevels_directions_length:
  "length (snd (membershipLevels n i sibs dirs)) = length dirs + n"
  by (induction n arbitrary: i sibs dirs) (simp_all add: Let_def)

lemma membershipLevels_directions_zero:
  "snd (membershipLevels n 0 sibs dirs) = dirs @ replicate n 0"
  by (induction n arbitrary: sibs dirs) (simp_all add: Let_def replicate_app_Cons_same)

lemma generateMembershipProof_placeholder:
  "merkleTree m = Some t \<Longrightarrow>
   generateMembershipProof m credentialHash i
     = Inr (placeholderProof i (snd (membershipLevels 32 i [] [])))"
  using membershipLevels_siblings [of 32 i "[]" "[]"]
  by (cases "membershipLevels 32 i [] []")
     (simp add: generateMembershipProof_def placeholderProof_def)

lemma generateMembershipProof_ignores_tree:
  "merkleTree m1 \<noteq> None \<Longrightarrow> merkleTree m2 \<noteq> None \<Longrightarrow>
   generateMembershipProof m1 h1 i = generateMembershipProof m2 h2 i"
  by (auto simp: generateMembershipProof_placeholder)

lemma generated_proof_fits_one_root_only:
  assumes "merkleTree m1 \<noteq> None" and "merkleTree m2 \<noteq> None"
    and "getRoot env m1 \<noteq> getRoot env m2"
    and "generateMembershipProof m1 h i = Inr p1" and "generateMembershipProof m2 h i = Inr p2"
  shows "\<not> (verifyMembershipProof ps (bigint_toString h) p1 (getRoot env m1) \<and>
            verifyMembershipProof ps (bigint_toString h) p2 (getRoot env m2))"
proof -
  from assms(1,2,4,5) have "p1 = p2"
    using generateMembershipProof_ignores_tree [of m1 m2 h i h] by simp
  with assms(3) show ?thesis
    by (auto simp: verifyMembershipProof_def split: option.splits)
qed


text \<open>
  Claim C2. The membership proof that \<open>generateMembershipProof\<close> returns for the leaf
  12345 at index 0 has the string \<open>'0'\<close> as the sibling of each of its 32 levels. It is
  the same proof after a further leaf has been inserted, although the root has changed,
  and hashing the leaf along it does not give the root of the tree.
\<close>

theorem C2_placeholder_siblings:
  "generateMembershipProof (merkleTreeManager sampleZKManager) 12345 0
     = Inr (placeholderProof 0 (replicate 32 0)) \<and>
   generateMembershipProof sampleManager2 12345 0
     = Inr (placeholderProof 0 (replicate 32 0)) \<and>
   getRoot sampleEnv (merkleTreeManager sampleZKManager) = ''13530'' \<and>
   getRoot sampleEnv sampleManager2 = ''420214'' \<and>
   \<not> verifyMembershipProof (poseidonHash sampleZKManager) (bigint_toString 12345)
       (placeholderProof 0 (replicate 32 0)) (getRoot sampleEnv (merkleTreeManager sampleZKManager))"
proof -
  have d: "snd (membershipLevels 32 0 [] []) = replicate 32 0"
    using membershipLevels_directions_zero [of 32 "[]" "[]"] by simp
  have 1: "generateMembershipProof (merkleTreeManager sampleZKManager) 12345 0
     = Inr (placeholderProof 0 (replicate 32 0))"
    using generateMembershipProof_placeholder [of "merkleTreeManager sampleZKManager" "[0, 12345]" 12345 0]
    by (simp add: d sampleZKManager_def)
  have 2: "generateMembershipProof sampleManager2 12345 0
     = Inr (placeholderProof 0 (replicate 32 0))"
    using generateMembershipProof_placeholder [of sampleManager2 "[0, 12345, 777]" 12345 0]
    by (simp add: d sampleManager2_def)
  have 3: "getRoot sampleEnv (merkleTreeManager sampleZKManager) = ''13530''"
    by (simp add: getRoot_def sampleZKManager_def sampleEnv_def bigint_toString.simps digit_char_def)
  have 4: "getRoot sampleEnv sampleManager2 = ''420214''"
    by (simp add: getRoot_def sampleManager2_def sampleEnv_def bigint_toString.simps digit_char_def)
  have z: "BigInt ''0'' = Some 0"
    by (simp add: BigInt_def trim_def isStrWhiteSpace_def parse_literal_def digit_val_def)
  have r: "replicate 32 x = [x, x, x, x, x, x, x, x, x, x, x, x, x, x, x, x,
                              x, x, x, x, x, x, x, x, x, x, x, x, x, x, x, x]" for x :: 'a
    by (simp add: numeral_eq_Suc)
  have p: "membershipPath (buildPoseidon sampleEnv) (replicate 32 ''0'') (replicate 32 0) 12345
             = Some 238241"
    unfolding r by (simp add: z sampleEnv_def convertPoseidonToBigInt_def)
  have b: "BigInt (bigint_toString 12345) = Some 12345"
    by (rule BigInt_toString)
  have t: "bigint_toString 238241 \<noteq> ''13530''"
    by (simp add: bigint_toString.simps digit_char_def)
  have 5: "\<not> verifyMembershipProof (poseidonHash sampleZKManager) (bigint_toString 12345)
       (placeholderProof 0 (replicate 32 0)) ''13530''"
    by (simp add: verifyMembershipProof_def placeholderProof_def sampleZKManager_def b p t)
  from 1 2 3 4 5 show ?thesis by simp
qed

subsection \<open>Generation of disclosure proofs\<close>

lemma keys_update: "fst ` set (AList.update k v al) = insert k (fst ` set al)"
  by (induction al) auto

lemma keys_setProperty:
  "fst ` set (setProperty k v al) = fst ` set al \<union> ({k} - {''__proto__''})"
  by (simp add: setProperty_def keys_update)

lemma distinct_setProperty:
  "distinct (map fst al) \<Longrightarrow> distinct (map fst (setProperty k v al))"
  by (simp add: setProperty_def distinct_update)

lemma revealFields_keys:
  "fst ` set (revealFields c fs acc) = fst ` set acc \<union> (set fs - {''__proto__''})"
proof (induction fs arbitrary: acc)
  case Nil
  show ?case by simp
next
  case (Cons f fs)
  show ?case
    unfolding revealFields.simps Cons.IH keys_setProperty by auto
qed

lemma revealFields_distinct:
  "distinct (map fst acc) \<Longrightarrow> distinct (map fst (revealFields c fs acc))"
  by (induction fs arbitrary: acc) (simp_all add: distinct_setProperty)

lemma generateZKProof_Inr:
  assumes "generateZKProof env now m cid fs ms = Inr p"
  shows "\<exists>c. map_of (credentials m) cid = Some c \<and> revealedAttributes p = revealFields c fs []"
proof (cases "map_of (credentials m) cid")
  case None
  with assms show ?thesis by (simp add: generateZKProof_def)
next
  case (Some c)
  show ?thesis
  proof (cases "generateMembershipProof m (the (map_of (leafNodes m) cid))
                  (the (map_of (credentialIndices m) cid))")
    case (Inl e)
    with assms Some show ?thesis
      by (auto simp: generateZKProof_def split: option.splits if_splits)
  next
    case (Inr mp)
    with assms Some show ?thesis
      by (auto simp: generateZKProof_def Let_def split: option.splits if_splits sum.splits)
  qed
qed

text \<open>
  Claim C5 (as amended). The revealed-attribute mapping of a proof that
  \<open>generateZKProof\<close> returns has as its keys exactly the requested fields other than
  \<open>__proto__\<close>, each of them once: the assignment under the name \<open>__proto__\<close> creates no
  key. The key set is never a superset of the requested fields.
\<close>

theorem C5_revealed_keys:
  "generateZKProof env now m cid fs ms = Inr p \<Longrightarrow>
   set (map fst (revealedAttributes p)) = set fs - {''__proto__''} \<and>
   distinct (map fst (revealedAttributes p))"
proof -
  assume "generateZKProof env now m cid fs ms = Inr p"
  then obtain c where r: "revealedAttributes p = revealFields c fs []"
    using generateZKProof_Inr by blast
  have "fst ` set (revealFields c fs []) = set fs - {''__proto__''}"
    by (simp add: revealFields_keys)
  moreover have "distinct (map fst (revealFields c fs []))"
    by (simp add: revealFields_distinct)
  ultimately show ?thesis
    by (simp add: r)
qed

lemma generateZKProof_stored:
  assumes "merkleTree m = Some tree" and "map_of (credentials m) cid = Some c"
    and "map_of (leafNodes m) cid = Some h" and "h \<noteq> 0"
    and "map_of (credentialIndices m) cid = Some i"
  shows "generateZKProof env now m cid fs ms =
     (case (case ms of
              None \<Rightarrow> Inr ()
            | Some l \<Rightarrow> verifyMinimumScores (toNumber env) c (objectOrder l)) of
        Inl e \<Rightarrow> Inl e
      | Inr _ \<Rightarrow>
          Inr \<lparr>proofType = ''IndexedMerkleTreeProof2023'', created = now,
               proofPurpose = ''authentication'', merkleRoot = getRoot env m,
               zkProof = Some
                 \<lparr>leaf = bigint_toString h,
                  path = replicate 32 ''0'',
                  indices = [i],
                  root_mp = getRoot env m,
                  membershipProof = Some (placeholderProof i (snd (membershipLevels 32 i [] []))),
                  nonMembershipProof = generateNonMembershipProof env m (h + 1)\<rparr>,
               revealedAttributes = revealFields c fs []\<rparr>)"
  using assms generateMembershipProof_placeholder [OF assms(1), of h i]
  by (simp add: generateZKProof_def Let_def placeholderProof_def split: sum.splits)








lemma sampleManager_stored:
  "merkleTree (merkleTreeManager sampleZKManager) = Some [0, 12345]"
  "map_of (credentials (merkleTreeManager sampleZKManager)) ''cred-1'' = Some sampleCredential"
  "map_of (leafNodes (merkleTreeManager sampleZKManager)) ''cred-1'' = Some 12345"
  "map_of (credentialIndices (merkleTreeManager sampleZKManager)) ''cred-1'' = Some 0"
  by (simp_all add: sampleZKManager_def)





theorem C5_revealed_keys_witness:
  "\<exists>p. generateZKProof sampleEnv ''2024-08-02'' (merkleTreeManager sampleZKManager) ''cred-1''
          [''name'', ''__proto__'', ''scores.overall''] None = Inr p \<and>
       revealedAttributes p
         = [(''name'', JStr ''Alice''), (''scores.overall'', JNum (Finite 8))] \<and>
       set (map fst (revealedAttributes p)) = {''name'', ''scores.overall''}"
proof -
  have n: "(12345::nat) \<noteq> 0" by simp
  have r: "revealFields sampleCredential [''name'', ''__proto__'', ''scores.overall''] []
             = [(''name'', JStr ''Alice''), (''scores.overall'', JNum (Finite 8))]"
    by (simp add: startsWith_def propertyOf_def scoreOf_def sampleCredential_def
          setProperty_def)
  obtain p where p: "generateZKProof sampleEnv ''2024-08-02'' (merkleTreeManager sampleZKManager)
      ''cred-1'' [''name'', ''__proto__'', ''scores.overall''] None = Inr p"
    and a: "revealedAttributes p
              = revealFields sampleCredential [''name'', ''__proto__'', ''scores.overall''] []"
    by (simp add: generateZKProof_stored [OF sampleManager_stored(1,2,3) n sampleManager_stored(4)])
  from C5_revealed_keys [OF p] p a r show ?thesis
    by auto
qed

text \<open>
  The claim as stated fails for the requested field \<open>__proto__\<close>: the proof is returned
  with no revealed attribute at all, so the key set is not the requested field set.
\<close>

theorem C5_counterexample:
  "\<exists>p. generateZKProof sampleEnv ''2024-08-02'' (merkleTreeManager sampleZKManager) ''cred-1''
          [''__proto__''] None = Inr p \<and>
       revealedAttributes p = [] \<and>
       set (map fst (revealedAttributes p)) \<noteq> set [''__proto__'']"
proof -
  have n: "(12345::nat) \<noteq> 0" by simp
  show ?thesis
    by (simp add: generateZKProof_stored [OF sampleManager_stored(1,2,3) n sampleManager_stored(4)]
          setProperty_def)
qed

subsection \<open>Saving and reloading the accumulator state\<close>

lemma update_fresh: "k \<notin> fst ` set al \<Longrightarrow> AList.update k v al = al @ [(k, v)]"
  by (induction al) auto

lemma restoreEntries_distinct:
  "distinct (map fst (acc @ xs)) \<Longrightarrow> restoreEntries xs acc = acc @ xs"
proof (induction xs arbitrary: acc)
  case Nil
  then show ?case by simp
next
  case (Cons x xs)
  obtain k v where x: "x = (k, v)" by (cases x)
  from Cons.prems x have f: "k \<notin> fst ` set acc" by auto
  from Cons.prems x have "distinct (map fst ((acc @ [(k, v)]) @ xs))" by simp
  from Cons.IH [OF this] f x show ?case by (simp add: update_fresh)
qed

lemma restoreLeafNodes_distinct:
  "distinct (map fst (acc @ xs)) \<Longrightarrow>
   restoreLeafNodes (map (\<lambda>(k, v). (k, bigint_toString v)) xs) acc = Some (acc @ xs)"
proof (induction xs arbitrary: acc)
  case Nil
  then show ?case by simp
next
  case (Cons x xs)
  obtain k v where x: "x = (k, v)" by (cases x)
  from Cons.prems x have f: "k \<notin> fst ` set acc" by auto
  from Cons.prems x have "distinct (map fst ((acc @ [(k, v)]) @ xs))" by simp
  from Cons.IH [OF this] f x show ?case by (simp add: update_fresh BigInt_toString)
qed

lemma objectOrder_no_index:
  assumes "\<forall>e \<in> set obj. arrayIndex (fst e) = None"
  shows "objectOrder obj = obj"
proof -
  from assms have "filter (\<lambda>e. arrayIndex (fst e) \<noteq> None) obj = []"
    by (simp add: filter_empty_conv)
  moreover from assms have "filter (\<lambda>e. arrayIndex (fst e) = None) obj = obj"
    by (simp add: filter_id_conv)
  ultimately show ?thesis by (simp add: objectOrder_def)
qed

lemma jsonNumber_finite: "jsonNumber n = n \<longleftrightarrow> (\<exists>r. n = Finite r) \<or> n = Null"
  by (cases n) (simp_all add: jsonNumber_def)

lemma save_unwritable_state_file:
  assumes "merkleTree m = Some tree" and "fs_writable fs filePath"
    and "\<not> fs_writable fs (stateFilePath filePath)"
  shows "saveTreeState m fs filePath
           = (Inl (SaveFailed FileSystemError),
              fs\<lparr>fs_files := (fs_files fs)(filePath \<mapsto> TreeSnapshot tree)\<rparr>)"
  using assms by (simp add: saveTreeState_def writeFile_def Let_def)

lemma save_load_roundtrip:
  assumes t: "merkleTree m = Some tree"
    and d: "tables_distinct m"
    and l: "loadFromFile env (TreeSnapshot tree) = Some tree"
    and p: "stateFilePath filePath \<noteq> filePath"
    and w: "fs_writable fs filePath" "fs_writable fs (stateFilePath filePath)"
    and j: "\<forall>e \<in> set (credentials m). jsonCredential (snd e) = snd e"
    and n: "\<forall>e \<in> set (credentials m). arrayIndex (fst e) = None"
           "\<forall>e \<in> set (leafNodes m). arrayIndex (fst e) = None"
           "\<forall>e \<in> set (credentialIndices m). arrayIndex (fst e) = None"
  shows "\<exists>fs'. saveTreeState m fs filePath = (Inr (), fs') \<and>
           fst (loadTreeState env zk fs' filePath) = Inr () \<and>
           merkleTreeManager (snd (loadTreeState env zk fs' filePath)) = m"
proof -
  let ?st = "\<lparr>as_credentials = credentials m,
              as_leafNodes = map (\<lambda>(k, v). (k, bigint_toString v)) (leafNodes m),
              as_credentialIndices = credentialIndices m\<rparr>"
  let ?fs' = "fs\<lparr>fs_files := (fs_files fs)(filePath \<mapsto> TreeSnapshot tree,
                                            stateFilePath filePath \<mapsto> StateJson ?st)\<rparr>"
  from j have c: "map (\<lambda>(k, v). (k, jsonCredential v)) (credentials m) = credentials m"
    by (intro map_idI) auto
  from n(2) have o2: "objectOrder (map (\<lambda>(k, v). (k, bigint_toString v)) (leafNodes m))
                        = map (\<lambda>(k, v). (k, bigint_toString v)) (leafNodes m)"
    by (intro objectOrder_no_index) auto
  note o1 = objectOrder_no_index [OF n(1)] and o3 = objectOrder_no_index [OF n(3)]
  from t w have s: "saveTreeState m fs filePath = (Inr (), ?fs')"
    by (simp add: saveTreeState_def writeFile_def Let_def c o1 o2 o3)
  from p have f1: "fs_files ?fs' filePath = Some (TreeSnapshot tree)"
    by simp
  have f2: "fs_files ?fs' (stateFilePath filePath) = Some (StateJson ?st)"
    by simp
  from d have r1: "restoreEntries (credentials m) [] = credentials m"
    and r2: "restoreLeafNodes (map (\<lambda>(k, v). (k, bigint_toString v)) (leafNodes m)) []
               = Some (leafNodes m)"
    and r3: "restoreEntries (credentialIndices m) [] = credentialIndices m"
    by (simp_all add: tables_distinct_def restoreEntries_distinct [of "[]", simplified]
          restoreLeafNodes_distinct [of "[]", simplified])
  have e: "(merkleTreeManager zk)\<lparr>merkleTree := Some tree, credentials := credentials m,
             leafNodes := leafNodes m, credentialIndices := credentialIndices m\<rparr> = m"
    using t by simp
  have "fst (loadTreeState env zk ?fs' filePath) = Inr () \<and>
        merkleTreeManager (snd (loadTreeState env zk ?fs' filePath)) = m"
    unfolding loadTreeState_def f1 f2
    by (cases "poseidonHash zk") (simp_all add: l o1 o2 o3 r1 r2 r3 e Let_def)
  with s show ?thesis by blast
qed

lemma startsWith_length: "startsWith s p \<Longrightarrow> length p \<le> length s"
proof -
  assume "startsWith s p"
  then have "length (take (length p) s) = length p" by (simp add: startsWith_def)
  then show ?thesis by simp
qed


lemma replace_str_length:
  "includes_str s p \<Longrightarrow> length (replace_str s p r) + length p = length s + length r"
proof (induction s)
  case Nil
  then show ?case by simp
next
  case (Cons c cs)
  show ?case
  proof (cases "startsWith (c # cs) p")
    case True
    with startsWith_length [OF True] show ?thesis by simp
  next
    case False
    with Cons.prems have "includes_str cs p" by simp
    from Cons.IH [OF this] False show ?thesis by simp
  qed
qed

lemma stateFilePath_differs: "includes_str filePath ''.json'' \<Longrightarrow> stateFilePath filePath \<noteq> filePath"
proof
  assume i: "includes_str filePath ''.json''" and e: "stateFilePath filePath = filePath"
  from replace_str_length [OF i, of "''-state.json''"] e show False
    by (simp add: stateFilePath_def)
qed

lemma replace_str_absent: "\<not> includes_str s p \<Longrightarrow> replace_str s p r = s"
  by (induction s) auto

lemma mtm_addCredential_success:
  assumes a: "mtm_addCredential env ps m c = (Inr i, m')" and d: "tables_distinct m"
  shows "tables_distinct m' \<and> merkleTree m' \<noteq> None"
proof -
  define m1 where "m1 = (case merkleTree m of None \<Rightarrow> mtm_initialize env m | Some _ \<Rightarrow> m)"
  have d1: "tables_distinct m1"
    using d by (simp add: m1_def tables_distinct_def mtm_initialize_def split: option.splits)
  obtain tree where t: "merkleTree m1 = Some tree"
    by (cases "merkleTree m") (simp_all add: m1_def mtm_initialize_def)
  have u: "mtm_addCredential env ps m c =
     (case hashCredential env ps c of
        Inl e \<Rightarrow> (Inl e, m1)
      | Inr credentialHash \<Rightarrow>
          if has_key (credentials m1) (cred_id c) then (Inl (AlreadyRegistered (cred_id c)), m1)
          else
            (case treeInsert env tree credentialHash of
               Inl msg \<Rightarrow>
                 (if includes_str msg ''already exists'' then (Inl HashAlreadyExists, m1)
                  else (Inl (LibraryError msg), m1))
             | Inr tree' \<Rightarrow>
                 (Inr (treeSize env tree - 1),
                  m1\<lparr>merkleTree := Some tree',
                     credentials := AList.update (cred_id c) c (credentials m1),
                     leafNodes := AList.update (cred_id c) credentialHash (leafNodes m1),
                     credentialIndices :=
                       AList.update (cred_id c) (treeSize env tree - 1) (credentialIndices m1)\<rparr>)))"
    unfolding mtm_addCredential_def m1_def [symmetric] Let_def by (simp add: t)
  show ?thesis
  proof (cases "hashCredential env ps c")
    case (Inl e)
    with a u show ?thesis by simp
  next
    case (Inr h)
    show ?thesis
    proof (cases "has_key (credentials m1) (cred_id c)")
      case True
      with a u Inr show ?thesis by simp
    next
      case False
      show ?thesis
      proof (cases "treeInsert env tree h")
        case (Inl msg)
        with a u Inr False show ?thesis by (simp split: if_splits)
      next
        case ins: (Inr tree')
        with a u Inr False have "m' = m1\<lparr>merkleTree := Some tree',
                     credentials := AList.update (cred_id c) c (credentials m1),
                     leafNodes := AList.update (cred_id c) h (leafNodes m1),
                     credentialIndices :=
                       AList.update (cred_id c) (treeSize env tree - 1) (credentialIndices m1)\<rparr>"
          by auto
        with d1 show ?thesis
          by (simp add: tables_distinct_def distinct_update)
      qed
    qed
  qed
qed

lemma addCredential_success:
  assumes "addCredential env zk c = (Inr i, zk')" and "tables_distinct (merkleTreeManager zk)"
  shows "tables_distinct (merkleTreeManager zk') \<and> merkleTree (merkleTreeManager zk') \<noteq> None"
proof -
  define zk1 where "zk1 = (case poseidonHash zk of None \<Rightarrow> zk_initialize env zk | Some _ \<Rightarrow> zk)"
  have d1: "tables_distinct (merkleTreeManager zk1)"
    using assms(2)
    by (simp add: zk1_def tables_distinct_def zk_initialize_def mtm_initialize_def
        split: option.splits)
  obtain r m' where a: "mtm_addCredential env (poseidonHash zk1) (merkleTreeManager zk1) c = (r, m')"
    by (cases "mtm_addCredential env (poseidonHash zk1) (merkleTreeManager zk1) c")
  with assms(1) have "r = Inr i" and "merkleTreeManager zk' = m'"
    by (auto simp: addCredential_def Let_def zk1_def [symmetric])
  with a mtm_addCredential_success [OF _ d1] show ?thesis by simp
qed

lemma addCredentials_invariant:
  "addCredentials env zk cs = Inr zk' \<Longrightarrow> tables_distinct (merkleTreeManager zk) \<Longrightarrow>
   merkleTree (merkleTreeManager zk) \<noteq> None \<Longrightarrow>
   tables_distinct (merkleTreeManager zk') \<and> merkleTree (merkleTreeManager zk') \<noteq> None"
proof (induction cs arbitrary: zk)
  case Nil
  then show ?case by simp
next
  case (Cons c cs)
  obtain r zk1 where a: "addCredential env zk c = (r, zk1)"
    by (cases "addCredential env zk c")
  with Cons.prems(1) obtain i where r: "r = Inr i" and rest: "addCredentials env zk1 cs = Inr zk'"
    by (cases r) auto
  from addCredential_success [OF a [unfolded r] Cons.prems(2)] Cons.IH [OF rest]
  show ?case by simp
qed

lemma initialized_invariant:
  "tables_distinct (merkleTreeManager (zk_initialize env newZKManager)) \<and>
   merkleTree (merkleTreeManager (zk_initialize env newZKManager)) \<noteq> None"
  by (simp add: zk_initialize_def newZKManager_def newMerkleTreeManager_def mtm_initialize_def
        tables_distinct_def)

lemma sample_hash:
  "\<exists>h. hashCredential sampleEnv (Some (buildPoseidon sampleEnv)) sampleCredential = Inr h"
  by (simp add: hashCredential_def convertPoseidonToBigInt_def sampleEnv_def Let_def
        scoreList_def sampleCredential_def)

lemma sample_initialize:
  "zk_initialize sampleEnv newZKManager
     = \<lparr>poseidonHash = Some (buildPoseidon sampleEnv),
        merkleTreeManager =
          \<lparr>merkleTree = Some [0], credentials = [], leafNodes = [], credentialIndices = []\<rparr>\<rparr>"
  by (simp add: zk_initialize_def newZKManager_def newMerkleTreeManager_def mtm_initialize_def
        sampleEnv_def)

lemma sample_mtm_addCredential:
  assumes h: "hashCredential sampleEnv (Some (buildPoseidon sampleEnv)) sampleCredential = Inr h"
  shows "mtm_addCredential sampleEnv (Some (buildPoseidon sampleEnv))
           \<lparr>merkleTree = Some [0], credentials = [], leafNodes = [], credentialIndices = []\<rparr>
           sampleCredential
         = (Inr 0, \<lparr>merkleTree = Some [0, h], credentials = [(''cred-1'', sampleCredential)],
               leafNodes = [(''cred-1'', h)], credentialIndices = [(''cred-1'', 0)]\<rparr>)"
proof -
  have c: "cred_id sampleCredential = ''cred-1''"
    by (simp add: sampleCredential_def)
  have t: "treeInsert sampleEnv [0] h = Inr [0, h]" "treeSize sampleEnv [0] = 1"
    by (simp_all add: sampleEnv_def)
  show ?thesis
    by (simp add: mtm_addCredential_def h c t has_key_def)
qed

lemma sample_addCredential:
  assumes h: "hashCredential sampleEnv (Some (buildPoseidon sampleEnv)) sampleCredential = Inr h"
  shows "addCredential sampleEnv (zk_initialize sampleEnv newZKManager) sampleCredential
     = (Inr 0, \<lparr>poseidonHash = Some (buildPoseidon sampleEnv),
            merkleTreeManager =
              \<lparr>merkleTree = Some [0, h], credentials = [(''cred-1'', sampleCredential)],
               leafNodes = [(''cred-1'', h)], credentialIndices = [(''cred-1'', 0)]\<rparr>\<rparr>)"
  unfolding sample_initialize addCredential_def Let_def
  by (simp add: sample_mtm_addCredential [OF h])

lemma sample_insertion:
  "\<exists>h. addCredentials sampleEnv (zk_initialize sampleEnv newZKManager) [sampleCredential]
     = Inr \<lparr>poseidonHash = Some (buildPoseidon sampleEnv),
            merkleTreeManager =
              \<lparr>merkleTree = Some [0, h], credentials = [(''cred-1'', sampleCredential)],
               leafNodes = [(''cred-1'', h)], credentialIndices = [(''cred-1'', 0)]\<rparr>\<rparr>"
proof -
  from sample_hash obtain h where
    h: "hashCredential sampleEnv (Some (buildPoseidon sampleEnv)) sampleCredential = Inr h"
    by blast
  from sample_addCredential [OF h] show ?thesis
    by (intro exI [of _ h]) simp
qed

text \<open>
  Where the round trip holds: the state after one insertion, saved under the path
  \<open>tree.json\<close> and reloaded into a new manager.
\<close>

lemma sample_roundtrip:
  "\<exists>zk fs'. addCredentials sampleEnv (zk_initialize sampleEnv newZKManager) [sampleCredential]
        = Inr zk \<and>
      credentials (merkleTreeManager zk) = [(''cred-1'', sampleCredential)] \<and>
      saveTreeState (merkleTreeManager zk) sampleFileSystem ''tree.json'' = (Inr (), fs') \<and>
      fst (loadTreeState sampleEnv newZKManager fs' ''tree.json'') = Inr () \<and>
      merkleTreeManager (snd (loadTreeState sampleEnv newZKManager fs' ''tree.json''))
        = merkleTreeManager zk"
proof -
  from sample_insertion obtain h zk where
    a: "addCredentials sampleEnv (zk_initialize sampleEnv newZKManager) [sampleCredential] = Inr zk"
    and z: "merkleTreeManager zk
              = \<lparr>merkleTree = Some [0, h], credentials = [(''cred-1'', sampleCredential)],
                 leafNodes = [(''cred-1'', h)], credentialIndices = [(''cred-1'', 0)]\<rparr>"
    by auto
  have t: "merkleTree (merkleTreeManager zk) = Some [0, h]" by (simp add: z)
  have d: "tables_distinct (merkleTreeManager zk)" by (simp add: z tables_distinct_def)
  have l: "loadFromFile sampleEnv (TreeSnapshot [0, h]) = Some [0, h]"
    by (simp add: sampleEnv_def)
  have p: "stateFilePath ''tree.json'' \<noteq> ''tree.json''"
    by (rule stateFilePath_differs) (simp add: startsWith_def)
  have sp: "stateFilePath ''tree.json'' = ''tree-state.json''"
    by (simp add: stateFilePath_def startsWith_def)
  have w: "fs_writable sampleFileSystem ''tree.json''"
    "fs_writable sampleFileSystem (stateFilePath ''tree.json'')"
    unfolding sp by (simp_all add: sampleFileSystem_def startsWith_def)
  have j: "\<forall>e \<in> set (credentials (merkleTreeManager zk)). jsonCredential (snd e) = snd e"
    by (simp add: z jsonCredential_def jsonNumber_def sampleCredential_def)
  have i: "arrayIndex ''cred-1'' = None"
    by (simp add: arrayIndex_def BigInt_def trim_def isStrWhiteSpace_def parse_literal_def
          digit_val_def)
  have n: "\<forall>e \<in> set (credentials (merkleTreeManager zk)). arrayIndex (fst e) = None"
    "\<forall>e \<in> set (leafNodes (merkleTreeManager zk)). arrayIndex (fst e) = None"
    "\<forall>e \<in> set (credentialIndices (merkleTreeManager zk)). arrayIndex (fst e) = None"
    by (simp_all add: z i)
  from save_load_roundtrip [OF t d l p w j n, of newZKManager] a z show ?thesis
    by auto
qed

text \<open>
  Where it does not hold for reasons other than the path: an identifier that is an array
  index moves to the front of its table, a score that is NaN comes back as \<open>null\<close>, and
  a state file that cannot be written leaves the snapshot without its side tables.
\<close>

lemma sample_objectOrder: "objectOrder sampleIndices = [(''2'', 2), (''10'', 1), (''b'', 0)]"
proof -
  have b: "bigint_toString 2 = ''2''"
    by (subst bigint_toString.simps) (simp add: digit_char_def)
  have c: "bigint_toString 10 = ''10''"
    by (subst bigint_toString.simps, subst bigint_toString.simps) (simp add: digit_char_def)
  have p: "BigInt ''b'' = None" "BigInt ''10'' = Some 10" "BigInt ''2'' = Some 2"
    by (simp_all add: BigInt_def trim_def isStrWhiteSpace_def parse_literal_def digit_val_def)
  have "arrayIndex ''b'' = None" "arrayIndex ''10'' = Some 10" "arrayIndex ''2'' = Some 2"
    by (simp_all add: arrayIndex_def p b c)
  then show ?thesis
    by (simp add: objectOrder_def sampleIndices_def indexOf_def)
qed

lemma sample_jsonCredential:
  "overall (scores (jsonCredential nanCredential)) = Null \<and>
   jsonCredential nanCredential \<noteq> nanCredential"
proof -
  have "overall (scores (jsonCredential nanCredential)) = Null"
    by (simp add: jsonCredential_def jsonNumber_def nanCredential_def)
  moreover have "overall (scores nanCredential) = NaN"
    by (simp add: nanCredential_def)
  ultimately show ?thesis by auto
qed

lemma sample_unwritable:
  "fst (saveTreeState (merkleTreeManager sampleZKManager) sampleFileSystem ''d.json/tree.json'')
     = Inl (SaveFailed FileSystemError)"
proof -
  have sp: "stateFilePath ''d.json/tree.json'' = ''d-state.json/tree.json''"
    by (simp add: stateFilePath_def startsWith_def)
  have "fs_writable sampleFileSystem ''d.json/tree.json''"
    by (simp add: sampleFileSystem_def startsWith_def)
  moreover have "\<not> fs_writable sampleFileSystem (stateFilePath ''d.json/tree.json'')"
    unfolding sp by (simp add: sampleFileSystem_def startsWith_def)
  ultimately show ?thesis
    using save_unwritable_state_file [OF sampleManager_stored(1)] by simp
qed

text \<open>
  Claim C9. The round trip fails for every snapshot path that does not contain
  \<open>.json\<close>. The state file is then the snapshot file itself: \<open>saveTreeState\<close> reports
  success, but it has overwritten the snapshot that the library had just written with
  the side tables, so that the file holds the side tables and no tree. \<open>loadTreeState\<close>
  hands that file to the library, and when the library does not take it for a snapshot
  the reload fails and restores nothing. Whatever the library does, what has been saved
  does not depend on the tree, so that no reload can restore the root.
\<close>

theorem C9_state_file_overwrites_snapshot:
  assumes "\<not> includes_str filePath ''.json''" and "merkleTree m = Some tree"
    and "fs_writable fs filePath"
  shows "\<exists>st. saveTreeState m fs filePath
                 = (Inr (), fs\<lparr>fs_files := (fs_files fs)(filePath \<mapsto> StateJson st)\<rparr>) \<and>
              (loadFromFile env (StateJson st) = None \<longrightarrow>
                 loadTreeState env zk
                     (fs\<lparr>fs_files := (fs_files fs)(filePath \<mapsto> StateJson st)\<rparr>) filePath
                   = (Inl (LoadFailed (LibraryError ''invalid snapshot'')), zk)) \<and>
              (\<forall>tree'. saveTreeState (m\<lparr>merkleTree := Some tree'\<rparr>) fs filePath
                         = saveTreeState m fs filePath)"
proof -
  let ?st = "\<lparr>as_credentials =
                 objectOrder (map (\<lambda>(k, v). (k, jsonCredential v)) (credentials m)),
              as_leafNodes =
                 objectOrder (map (\<lambda>(k, v). (k, bigint_toString v)) (leafNodes m)),
              as_credentialIndices = objectOrder (credentialIndices m)\<rparr>"
  let ?fs' = "fs\<lparr>fs_files := (fs_files fs)(filePath \<mapsto> StateJson ?st)\<rparr>"
  from assms(1) have p: "stateFilePath filePath = filePath"
    by (simp add: stateFilePath_def replace_str_absent)
  from assms(2,3) have s: "saveTreeState m fs filePath = (Inr (), ?fs')"
    by (simp add: saveTreeState_def writeFile_def Let_def p)
  have l: "loadTreeState env zk ?fs' filePath
             = (Inl (LoadFailed (LibraryError ''invalid snapshot'')), zk)"
    if "loadFromFile env (StateJson ?st) = None"
    using that by (simp add: loadTreeState_def)
  from assms(3) have i: "saveTreeState (m\<lparr>merkleTree := Some tree'\<rparr>) fs filePath = (Inr (), ?fs')"
    for tree'
    by (simp add: saveTreeState_def writeFile_def Let_def p)
  show ?thesis
  proof (intro exI [of _ ?st] conjI impI allI)
    show "saveTreeState m fs filePath = (Inr (), ?fs')" by (rule s)
  next
    assume "loadFromFile env (StateJson ?st) = None"
    then show "loadTreeState env zk ?fs' filePath
                 = (Inl (LoadFailed (LibraryError ''invalid snapshot'')), zk)"
      by (rule l)
  next
    fix tree'
    show "saveTreeState (m\<lparr>merkleTree := Some tree'\<rparr>) fs filePath = saveTreeState m fs filePath"
      by (simp only: i s)
  qed
qed

theorem C9_state_file_overwrites_snapshot_witness:
  "\<not> includes_str ''snapshot'' ''.json'' \<and>
   (\<exists>zk st fs'.
      addCredentials sampleEnv (zk_initialize sampleEnv newZKManager) [sampleCredential]
        = Inr zk \<and>
      saveTreeState (merkleTreeManager zk) sampleFileSystem ''snapshot'' = (Inr (), fs') \<and>
      fs_files fs' ''snapshot'' = Some (StateJson st) \<and>
      loadTreeState sampleEnv newZKManager fs' ''snapshot''
        = (Inl (LoadFailed (LibraryError ''invalid snapshot'')), newZKManager) \<and>
      merkleTree (merkleTreeManager zk) \<noteq> None \<and>
      merkleTree (merkleTreeManager (newZKManager :: nat list ZKManager)) = None \<and>
      saveTreeState ((merkleTreeManager zk)\<lparr>merkleTree := Some [0]\<rparr>) sampleFileSystem
          ''snapshot''
        = saveTreeState (merkleTreeManager zk) sampleFileSystem ''snapshot'')"
proof -
  from sample_insertion obtain h zk where
    a: "addCredentials sampleEnv (zk_initialize sampleEnv newZKManager) [sampleCredential] = Inr zk"
    and t: "merkleTree (merkleTreeManager zk) = Some [0, h]"
    by auto
  have p: "\<not> includes_str ''snapshot'' ''.json''"
    by (simp add: startsWith_def)
  have w: "fs_writable sampleFileSystem ''snapshot''"
    by (simp add: sampleFileSystem_def startsWith_def)
  have "\<exists>st. saveTreeState (merkleTreeManager zk) sampleFileSystem ''snapshot''
          = (Inr (), sampleFileSystem\<lparr>fs_files :=
                        (fs_files sampleFileSystem)(''snapshot'' \<mapsto> StateJson st)\<rparr>) \<and>
       (loadFromFile sampleEnv (StateJson st) = None \<longrightarrow>
       loadTreeState sampleEnv newZKManager
           (sampleFileSystem\<lparr>fs_files :=
              (fs_files sampleFileSystem)(''snapshot'' \<mapsto> StateJson st)\<rparr>) ''snapshot''
         = (Inl (LoadFailed (LibraryError ''invalid snapshot'')), newZKManager)) \<and>
       (\<forall>tree'. saveTreeState ((merkleTreeManager zk)\<lparr>merkleTree := Some tree'\<rparr>)
                    sampleFileSystem ''snapshot''
                 = saveTreeState (merkleTreeManager zk) sampleFileSystem ''snapshot'')"
    by (rule C9_state_file_overwrites_snapshot [OF p t w, of sampleEnv newZKManager])
  then obtain st where
    s: "saveTreeState (merkleTreeManager zk) sampleFileSystem ''snapshot''
          = (Inr (), sampleFileSystem\<lparr>fs_files :=
                        (fs_files sampleFileSystem)(''snapshot'' \<mapsto> StateJson st)\<rparr>)"
    and l: "loadFromFile sampleEnv (StateJson st) = None \<longrightarrow>
       loadTreeState sampleEnv newZKManager
           (sampleFileSystem\<lparr>fs_files :=
              (fs_files sampleFileSystem)(''snapshot'' \<mapsto> StateJson st)\<rparr>) ''snapshot''
         = (Inl (LoadFailed (LibraryError ''invalid snapshot'')), newZKManager)"
    and i0: "\<forall>tree'. saveTreeState ((merkleTreeManager zk)\<lparr>merkleTree := Some tree'\<rparr>)
                    sampleFileSystem ''snapshot''
                 = saveTreeState (merkleTreeManager zk) sampleFileSystem ''snapshot''"
    by (elim exE conjE)
  note i = i0 [rule_format, of "[0]"]
  have r: "loadFromFile sampleEnv (StateJson st) = None"
    by (simp add: sampleEnv_def)
  have n: "merkleTree (merkleTreeManager (newZKManager :: nat list ZKManager)) = None"
    by (simp add: newZKManager_def newMerkleTreeManager_def)
  let ?fs' = "sampleFileSystem\<lparr>fs_files :=
                (fs_files sampleFileSystem)(''snapshot'' \<mapsto> StateJson st)\<rparr>"
  have f: "fs_files ?fs' ''snapshot'' = Some (StateJson st)" by simp
  from a s f l r t n i have
    "addCredentials sampleEnv (zk_initialize sampleEnv newZKManager) [sampleCredential]
        = Inr zk \<and>
      saveTreeState (merkleTreeManager zk) sampleFileSystem ''snapshot'' = (Inr (), ?fs') \<and>
      fs_files ?fs' ''snapshot'' = Some (StateJson st) \<and>
      loadTreeState sampleEnv newZKManager ?fs' ''snapshot''
        = (Inl (LoadFailed (LibraryError ''invalid snapshot'')), newZKManager) \<and>
      merkleTree (merkleTreeManager zk) \<noteq> None \<and>
      merkleTree (merkleTreeManager (newZKManager :: nat list ZKManager)) = None \<and>
      saveTreeState ((merkleTreeManager zk)\<lparr>merkleTree := Some [0]\<rparr>) sampleFileSystem
          ''snapshot''
        = saveTreeState (merkleTreeManager zk) sampleFileSystem ''snapshot''"
    by simp
  then have "\<exists>zk st fs'.
      addCredentials sampleEnv (zk_initialize sampleEnv newZKManager) [sampleCredential]
        = Inr zk \<and>
      saveTreeState (merkleTreeManager zk) sampleFileSystem ''snapshot'' = (Inr (), fs') \<and>
      fs_files fs' ''snapshot'' = Some (StateJson st) \<and>
      loadTreeState sampleEnv newZKManager fs' ''snapshot''
        = (Inl (LoadFailed (LibraryError ''invalid snapshot'')), newZKManager) \<and>
      merkleTree (merkleTreeManager zk) \<noteq> None \<and>
      merkleTree (merkleTreeManager (newZKManager :: nat list ZKManager)) = None \<and>
      saveTreeState ((merkleTreeManager zk)\<lparr>merkleTree := Some [0]\<rparr>) sampleFileSystem
          ''snapshot''
        = saveTreeState (merkleTreeManager zk) sampleFileSystem ''snapshot''"
    by (intro exI [of _ zk] exI [of _ st] exI [of _ ?fs'])
  with p show ?thesis by simp
qed

end
